theory Spec2Isabelle
  imports Complex_Main "HOL-Library.Word" "HOL-Library.Signed_Division"
begin

section \<open>ESP32 Autonomous Sentinel: wake orchestration and persistent cooldown\<close>

text \<open>
  A shallow embedding of \<^verbatim>\<open>sleep_manager.cpp\<close>, \<^verbatim>\<open>camera_driver.cpp\<close>,
  \<^verbatim>\<open>sdcard_driver.cpp\<close>, \<^verbatim>\<open>detector.cpp\<close> and of the handlers of
  \<^verbatim>\<open>app_main.cpp\<close>. The firmware is single threaded; every method becomes a function
  that takes the state of the process and returns its result with the new state. Calls
  into ESP-IDF and into the network classes (not part of the embedded files) take their
  results from a \<open>platform\<close> record, and every such call is appended to a trace.
  \<^verbatim>\<open>enterDeepSleep\<close> is \<^verbatim>\<open>[[noreturn]]\<close>: the state it returns is the final state
  of the process, and no code after a call to it is run.
\<close>

subsection \<open>Machine types and configuration (board_config.hpp, app_config.hpp)\<close>

type_synonym int64_t = "64 word"
type_synonym uint64_t = "64 word"
type_synonym esp_err_t = int

definition ESP_OK :: esp_err_t where
  "ESP_OK = 0"

definition ESP_FAIL :: esp_err_t where
  "ESP_FAIL = - 1"

text \<open>\<^verbatim>\<open>config::pir::PIN = GPIO_NUM_3\<close>, \<^verbatim>\<open>config::pir::WARMUP_MS = 3000\<close>.\<close>

definition PIN :: nat where
  "PIN = 3"

definition WARMUP_MS :: nat where
  "WARMUP_MS = 3000"

definition COOLDOWN_SECONDS :: int64_t where
  "COOLDOWN_SECONDS = 3600"

definition CAMERA_WARMUP_FRAMES :: int where
  "CAMERA_WARMUP_FRAMES = 25"

definition CAMERA_WARMUP_DELAY_MS :: nat where
  "CAMERA_WARMUP_DELAY_MS = 35"

definition CAMERA_MIN_VALID_FRAMES :: int where
  "CAMERA_MIN_VALID_FRAMES = 20"

definition MIN_FRAME_SIZE :: nat where
  "MIN_FRAME_SIZE = 1024"

text \<open>\<^verbatim>\<open>constexpr float MIN_CONFIDENCE = 0.5f\<close>; a float score is read as the real
  number it denotes.\<close>

definition MIN_CONFIDENCE :: real where
  "MIN_CONFIDENCE = 1 / 2"

subsection \<open>Data\<close>

datatype WakeReason = POWER_ON | PIR_TRIGGER | TIMER | UNKNOWN

text \<open>The cause codes the constructor of \<^verbatim>\<open>SleepManager\<close> tells apart; every other
  code of ESP-IDF is \<open>ESP_SLEEP_WAKEUP_OTHER\<close>.\<close>

datatype esp_sleep_wakeup_cause_t =
    ESP_SLEEP_WAKEUP_UNDEFINED
  | ESP_SLEEP_WAKEUP_EXT1
  | ESP_SLEEP_WAKEUP_TIMER
  | ESP_SLEEP_WAKEUP_OTHER nat

text \<open>\<^verbatim>\<open>camera_fb_t\<close>: of a frame buffer the code reads \<^verbatim>\<open>len\<close> (and prints width
  and height).\<close>

record camera_fb_t =
  len :: nat

text \<open>\<^verbatim>\<open>DetectionResult\<close>; the bounding box is only printed into the caption and is
  left out.\<close>

record DetectionResult =
  detected :: bool
  confidence :: real

text \<open>One entry per call into the platform or a collaborator, with what it returned.\<close>

datatype event =
    Sdmmc_Mount esp_err_t
  | Sdcard_Unmount
  | Sd_Gpio_Reset
  | Camera_Init esp_err_t
  | Camera_Deinit
  | Camera_Gpio_Reset
  | Sensor_Settings
  | Sensor_Standby
  | Fb_Get "camera_fb_t option"
  | Fb_Return camera_fb_t
  | Task_Delay nat
  | Detect DetectionResult
  | Wifi_Connect esp_err_t
  | Wifi_Disconnect
  | Telegram_Send esp_err_t
  | Cooldown_Started int64_t
  | Enable_Timer_Wakeup uint64_t
  | Enable_Ext1_Wakeup uint64_t
  | Deep_Sleep_Start

text \<open>What the platform answers. \<open>esp_timer_get_time\<close>, \<open>esp_camera_sensor_get\<close> and
  \<open>esp_camera_fb_get\<close> are called several times in one process lifetime: their k-th
  call returns the value at index k. \<open>dl_detect\<close> stands for JPEG decoding followed by
  the ESP-DL model: \<open>None\<close> when decoding fails, otherwise the scores of the detections
  in the order the model returns them.\<close>

record platform =
  esp_sleep_get_wakeup_cause :: esp_sleep_wakeup_cause_t
  esp_timer_get_time :: "nat \<Rightarrow> int64_t"
  esp_vfs_fat_sdmmc_mount :: esp_err_t
  esp_camera_init :: esp_err_t
  esp_camera_sensor_get :: "nat \<Rightarrow> bool"
  esp_camera_fb_get :: "nat \<Rightarrow> camera_fb_t option"
  dl_detect :: "camera_fb_t \<Rightarrow> real list option"
  wifi_connect :: esp_err_t
  wifi_isConnected :: bool
  telegram_sendDocument :: esp_err_t

text \<open>The state of one process lifetime. \<open>s_nextPirAllowTime\<close> is the
  \<^verbatim>\<open>RTC_DATA_ATTR\<close> variable; \<open>m_card\<close> says \<^verbatim>\<open>sdCard.m_card != nullptr\<close>;
  \<open>m_initialized\<close> is the camera driver's flag; the three counters index the
  platform's answers.\<close>

record world =
  s_nextPirAllowTime :: int64_t
  m_wakeReason :: WakeReason
  m_card :: bool
  m_initialized :: bool
  timer_reads :: nat
  sensor_gets :: nat
  fb_gets :: nat
  trace :: "event list"

text \<open>A process starts (power-on or wake from deep sleep) with nothing but the RTC
  variable retained.\<close>

definition process_start :: "int64_t \<Rightarrow> world" where
  "process_start rtc =
     \<lparr>s_nextPirAllowTime = rtc, m_wakeReason = UNKNOWN, m_card = False,
      m_initialized = False, timer_reads = 0, sensor_gets = 0, fb_gets = 0, trace = []\<rparr>"

definition emit :: "event \<Rightarrow> world \<Rightarrow> world" where
  "emit e s = s\<lparr>trace := trace s @ [e]\<rparr>"

subsection \<open>sleep\_manager.cpp\<close>

definition SleepManager :: "platform \<Rightarrow> world \<Rightarrow> world" where
  "SleepManager p s =
     s\<lparr>m_wakeReason :=
         (case esp_sleep_get_wakeup_cause p of
            ESP_SLEEP_WAKEUP_UNDEFINED \<Rightarrow> POWER_ON
          | ESP_SLEEP_WAKEUP_EXT1 \<Rightarrow> PIR_TRIGGER
          | ESP_SLEEP_WAKEUP_TIMER \<Rightarrow> TIMER
          | ESP_SLEEP_WAKEUP_OTHER c \<Rightarrow> UNKNOWN)\<rparr>"

definition getWakeReason :: "world \<Rightarrow> WakeReason" where
  "getWakeReason s = m_wakeReason s"

text \<open>\<^verbatim>\<open>t / 1000000\<close> on \<^verbatim>\<open>int64_t\<close>: C++ division truncates towards zero,
  which is \<open>sdiv\<close> on the signed value; the quotient is in range.\<close>

definition div_1000000 :: "int64_t \<Rightarrow> int64_t" where
  "div_1000000 t = word_of_int (sint t sdiv 1000000)"

definition getCurrentTimeSec :: "platform \<Rightarrow> world \<Rightarrow> int64_t \<times> world" where
  "getCurrentTimeSec p s =
     (div_1000000 (esp_timer_get_time p (timer_reads s)),
      s\<lparr>timer_reads := timer_reads s + 1\<rparr>)"

definition isInCooldown :: "platform \<Rightarrow> world \<Rightarrow> bool \<times> world" where
  "isInCooldown p s =
     (let (now, s') = getCurrentTimeSec p s
      in (now <s s_nextPirAllowTime s', s'))"

definition getCooldownRemaining :: "platform \<Rightarrow> world \<Rightarrow> int64_t \<times> world" where
  "getCooldownRemaining p s =
     (let (now, s') = getCurrentTimeSec p s;
          remaining = s_nextPirAllowTime s' - now
      in (if 0 <s remaining then remaining else 0, s'))"

definition startCooldown :: "platform \<Rightarrow> int64_t \<Rightarrow> world \<Rightarrow> world" where
  "startCooldown p seconds s =
     (let (now, s') = getCurrentTimeSec p s
      in emit (Cooldown_Started seconds) (s'\<lparr>s_nextPirAllowTime := now + seconds\<rparr>))"

text \<open>\<^verbatim>\<open>sleepDuration * 1000000ULL\<close> is a multiplication of \<^verbatim>\<open>uint64_t\<close>;
  \<^verbatim>\<open>1ULL << config::pir::PIN\<close> is the pin mask.\<close>

definition enterDeepSleep :: "platform \<Rightarrow> world \<Rightarrow> world" where
  "enterDeepSleep p s =
     (let (cooling, s1) = isInCooldown p s;
          s2 = (if cooling then
                  (let (sleepDuration, s') = getCooldownRemaining p s1
                   in emit (Enable_Timer_Wakeup (sleepDuration * 1000000)) s')
                else emit (Enable_Ext1_Wakeup (push_bit PIN 1)) s1)
      in emit Deep_Sleep_Start (emit (Task_Delay 100) s2))"

subsection \<open>sdcard\_driver.cpp\<close>

text \<open>The constructor: \<^verbatim>\<open>m_card(nullptr)\<close>.\<close>

definition SdCardDriver :: "world \<Rightarrow> world" where
  "SdCardDriver s = s\<lparr>m_card := False\<rparr>"

definition SdCardDriver_mount :: "platform \<Rightarrow> world \<Rightarrow> esp_err_t \<times> world" where
  "SdCardDriver_mount p s =
     (if m_card s then (ESP_OK, s)
      else
        (let ret = esp_vfs_fat_sdmmc_mount p;
             s' = emit (Sdmmc_Mount ret) s
         in if ret \<noteq> ESP_OK then (ret, s'\<lparr>m_card := False\<rparr>)
            else (ESP_OK, s'\<lparr>m_card := True\<rparr>)))"

definition SdCardDriver_shutdown :: "world \<Rightarrow> world" where
  "SdCardDriver_shutdown s =
     (if \<not> m_card s then s
      else emit Sd_Gpio_Reset ((emit Sdcard_Unmount s)\<lparr>m_card := False\<rparr>))"

subsection \<open>camera\_driver.cpp\<close>

text \<open>The constructor: \<^verbatim>\<open>m_initialized(false)\<close>.\<close>

definition CameraDriver :: "world \<Rightarrow> world" where
  "CameraDriver s = s\<lparr>m_initialized := False\<rparr>"

definition sensor_get :: "platform \<Rightarrow> world \<Rightarrow> bool \<times> world" where
  "sensor_get p s =
     (esp_camera_sensor_get p (sensor_gets s), s\<lparr>sensor_gets := sensor_gets s + 1\<rparr>)"

definition fb_get :: "platform \<Rightarrow> world \<Rightarrow> camera_fb_t option \<times> world" where
  "fb_get p s =
     (let fb = esp_camera_fb_get p (fb_gets s)
      in (fb, emit (Fb_Get fb) (s\<lparr>fb_gets := fb_gets s + 1\<rparr>)))"

definition CameraDriver_init :: "platform \<Rightarrow> world \<Rightarrow> esp_err_t \<times> world" where
  "CameraDriver_init p s =
     (if m_initialized s then (ESP_OK, s)
      else
        (let err = esp_camera_init p;
             s1 = emit (Camera_Init err) s
         in if err \<noteq> ESP_OK then (err, s1)
            else
              (let (sensor, s2) = sensor_get p s1
               in if sensor then (ESP_OK, (emit Sensor_Settings s2)\<lparr>m_initialized := True\<rparr>)
                  else (ESP_FAIL, emit Camera_Deinit s2))))"

text \<open>The body of the \<^verbatim>\<open>for\<close> loop of \<^verbatim>\<open>warmup\<close>, with its counter \<open>i\<close> and
  \<open>validFrames\<close>.\<close>

function warmup_loop :: "platform \<Rightarrow> int \<Rightarrow> int \<Rightarrow> world \<Rightarrow> int \<times> world" where
  "warmup_loop p i validFrames s =
     (if i < CAMERA_WARMUP_FRAMES then
        (let (fb, s1) = fb_get p s;
             (validFrames', s2) =
               (case fb of
                  None \<Rightarrow> (validFrames, s1)
                | Some f \<Rightarrow>
                    (if MIN_FRAME_SIZE < len f then validFrames + 1 else validFrames,
                     emit (Fb_Return f) s1))
         in warmup_loop p (i + 1) validFrames' (emit (Task_Delay CAMERA_WARMUP_DELAY_MS) s2))
      else (validFrames, s))"
  by pat_completeness auto
termination
  by (relation "measure (\<lambda>(p, i, validFrames, s). nat (CAMERA_WARMUP_FRAMES - i))") auto

declare warmup_loop.simps [simp del]

definition CameraDriver_warmup :: "platform \<Rightarrow> world \<Rightarrow> bool \<times> world" where
  "CameraDriver_warmup p s =
     (if \<not> m_initialized s then (False, s)
      else
        (let (validFrames, s') = warmup_loop p 0 0 s
         in (CAMERA_MIN_VALID_FRAMES \<le> validFrames, s')))"

definition CameraDriver_capture :: "platform \<Rightarrow> world \<Rightarrow> camera_fb_t option \<times> world" where
  "CameraDriver_capture p s =
     (if \<not> m_initialized s then (None, s)
      else
        (let (fb, s1) = fb_get p s
         in case fb of
              None \<Rightarrow> (None, s1)
            | Some f \<Rightarrow>
                if len f < MIN_FRAME_SIZE then (None, emit (Fb_Return f) s1)
                else (Some f, s1)))"

definition CameraDriver_returnFrame :: "camera_fb_t option \<Rightarrow> world \<Rightarrow> world" where
  "CameraDriver_returnFrame fb s = (case fb of None \<Rightarrow> s | Some f \<Rightarrow> emit (Fb_Return f) s)"

definition CameraDriver_shutdown :: "platform \<Rightarrow> world \<Rightarrow> world" where
  "CameraDriver_shutdown p s =
     (if \<not> m_initialized s then s
      else
        (let (sensor, s1) = sensor_get p s;
             s2 = (if sensor then emit Sensor_Standby s1 else s1);
             s3 = emit Camera_Deinit s2;
             s4 = emit Camera_Gpio_Reset s3
         in s4\<lparr>m_initialized := False\<rparr>))"

subsection \<open>detector.cpp\<close>

text \<open>\<^verbatim>\<open>Detector::detect\<close> on a frame that is not null: the result stays
  "not detected" for an empty frame and when decoding fails, and takes the score of the
  first detection otherwise.\<close>

definition Detector_detect :: "platform \<Rightarrow> camera_fb_t \<Rightarrow> world \<Rightarrow> DetectionResult \<times> world" where
  "Detector_detect p frame s =
     (let result = \<lparr>detected = False, confidence = 0\<rparr>;
          result' =
            (if len frame = 0 then result
             else
               (case dl_detect p frame of
                  None \<Rightarrow> result
                | Some detections \<Rightarrow>
                    (case detections of
                       [] \<Rightarrow> result
                     | score # rest \<Rightarrow> \<lparr>detected = True, confidence = score\<rparr>)))
      in (result', emit (Detect result') s))"

subsection \<open>app\_main.cpp\<close>

definition handlePowerOnBoot :: "platform \<Rightarrow> world \<Rightarrow> world" where
  "handlePowerOnBoot p s = enterDeepSleep p (emit (Task_Delay WARMUP_MS) s)"

definition handleTimerWakeup :: "platform \<Rightarrow> world \<Rightarrow> world" where
  "handleTimerWakeup p s = enterDeepSleep p s"

text \<open>STEP 6 of \<^verbatim>\<open>handlePirTrigger\<close>, the branch taken on a confident detection:
  connect, send, disconnect, then start the cooldown. The caption reads the clock. The
  network classes are collaborators: \<^verbatim>\<open>connect\<close>, \<^verbatim>\<open>isConnected\<close> and
  \<^verbatim>\<open>sendDocument\<close> are taken by what they return.\<close>

definition notify_and_cooldown :: "platform \<Rightarrow> world \<Rightarrow> world" where
  "notify_and_cooldown p s =
     (let ret = wifi_connect p;
          s1 = emit (Wifi_Connect ret) s;
          s2 = (if ret = ESP_OK \<and> wifi_isConnected p then
                  (let (t, s') = getCurrentTimeSec p s1;
                       s'' = emit (Telegram_Send (telegram_sendDocument p)) s'
                   in emit Wifi_Disconnect s'')
                else s1)
      in startCooldown p COOLDOWN_SECONDS s2)"

text \<open>STEP 7: return the frame, shut the camera down, then the SD card.\<close>

definition cleanup :: "platform \<Rightarrow> camera_fb_t option \<Rightarrow> world \<Rightarrow> world" where
  "cleanup p frame s =
     SdCardDriver_shutdown (CameraDriver_shutdown p (CameraDriver_returnFrame frame s))"

definition handlePirTrigger :: "platform \<Rightarrow> world \<Rightarrow> world" where
  "handlePirTrigger p s =
     (let (cooling, s1) = isInCooldown p s
      in if cooling then
           (let (remaining, s2) = getCooldownRemaining p s1
            in enterDeepSleep p s2)
         else
           (let (ret, s2) = SdCardDriver_mount p (SdCardDriver s1)
            in if ret \<noteq> ESP_OK then enterDeepSleep p (SdCardDriver_shutdown s2)
               else
                 (let (ret, s3) = CameraDriver_init p (CameraDriver s2)
                  in if ret \<noteq> ESP_OK then
                       enterDeepSleep p (SdCardDriver_shutdown (CameraDriver_shutdown p s3))
                     else
                       (let (ok, s4) = CameraDriver_warmup p s3
                        in if \<not> ok then
                             enterDeepSleep p (SdCardDriver_shutdown (CameraDriver_shutdown p s4))
                           else
                             (let (frame, s5) = CameraDriver_capture p s4
                              in case frame of
                                   None \<Rightarrow>
                                     enterDeepSleep p
                                       (SdCardDriver_shutdown (CameraDriver_shutdown p s5))
                                 | Some fb \<Rightarrow>
                                     (let (result, s6) = Detector_detect p fb s5;
                                          s7 = (if detected result \<and>
                                                   MIN_CONFIDENCE \<le> confidence result
                                                then notify_and_cooldown p s6
                                                else s6)
                                      in enterDeepSleep p (cleanup p frame s7)))))))"

definition app_main :: "platform \<Rightarrow> world \<Rightarrow> world" where
  "app_main p s =
     (let sleepMgr = SleepManager p s
      in case getWakeReason sleepMgr of
           POWER_ON \<Rightarrow> handlePowerOnBoot p sleepMgr
         | TIMER \<Rightarrow> handleTimerWakeup p sleepMgr
         | PIR_TRIGGER \<Rightarrow> handlePirTrigger p sleepMgr
         | UNKNOWN \<Rightarrow> enterDeepSleep p sleepMgr)"

subsection \<open>Vocabulary of the properties\<close>

text \<open>Events that arm a wake source, and events written by \<^verbatim>\<open>startCooldown\<close>.\<close>

fun is_wake_source :: "event \<Rightarrow> bool" where
  "is_wake_source (Enable_Timer_Wakeup d) = True"
| "is_wake_source (Enable_Ext1_Wakeup m) = True"
| "is_wake_source e = False"

fun is_cooldown_started :: "event \<Rightarrow> bool" where
  "is_cooldown_started (Cooldown_Started d) = True"
| "is_cooldown_started e = False"

fun is_fb_get :: "event \<Rightarrow> bool" where
  "is_fb_get (Fb_Get fb) = True"
| "is_fb_get e = False"

text \<open>The wake source \<^verbatim>\<open>enterDeepSleep\<close> arms when it is entered in state \<open>s\<close>: the
  cooldown test reads the clock once, the duration reads it again.\<close>

definition wake_source :: "platform \<Rightarrow> world \<Rightarrow> event" where
  "wake_source p s =
     (if fst (isInCooldown p s)
      then Enable_Timer_Wakeup (fst (getCooldownRemaining p (snd (isInCooldown p s))) * 1000000)
      else Enable_Ext1_Wakeup (push_bit PIN 1))"

text \<open>The same, for an entry at clock index \<open>k\<close> with \<open>allowed\<close> in the RTC variable.\<close>

definition arm_at :: "platform \<Rightarrow> nat \<Rightarrow> int64_t \<Rightarrow> event" where
  "arm_at p k allowed = wake_source p ((process_start allowed)\<lparr>timer_reads := k\<rparr>)"

definition sleep_events :: "platform \<Rightarrow> nat \<Rightarrow> int64_t \<Rightarrow> event list" where
  "sleep_events p k allowed = [arm_at p k allowed, Task_Delay 100, Deep_Sleep_Start]"

text \<open>The three resource types of the pipeline, what acquires one and what releases
  one.\<close>

datatype resource = Storage_Session | Imaging_Session | Captured_Frame

fun acquired :: "resource \<Rightarrow> event \<Rightarrow> bool" where
  "acquired Storage_Session (Sdmmc_Mount ret) = (ret = ESP_OK)"
| "acquired Imaging_Session (Camera_Init err) = (err = ESP_OK)"
| "acquired Captured_Frame (Fb_Get fb) = (fb \<noteq> None)"
| "acquired r e = False"

fun released :: "resource \<Rightarrow> event \<Rightarrow> bool" where
  "released Storage_Session Sdcard_Unmount = True"
| "released Imaging_Session Camera_Deinit = True"
| "released Captured_Frame (Fb_Return f) = True"
| "released r e = False"

text \<open>The sessions a trace acquires, and the sessions it releases, in trace order.\<close>

fun session_acquired :: "event \<Rightarrow> resource list" where
  "session_acquired (Sdmmc_Mount ret) = (if ret = ESP_OK then [Storage_Session] else [])"
| "session_acquired (Camera_Init err) = (if err = ESP_OK then [Imaging_Session] else [])"
| "session_acquired e = []"

fun session_released :: "event \<Rightarrow> resource list" where
  "session_released Sdcard_Unmount = [Storage_Session]"
| "session_released Camera_Deinit = [Imaging_Session]"
| "session_released e = []"

text \<open>Warmup: the frames the loop is given, the test it counts them by, and what one
  iteration appends to the trace.\<close>

definition frames_from :: "platform \<Rightarrow> nat \<Rightarrow> nat \<Rightarrow> camera_fb_t option list" where
  "frames_from p k n = map (esp_camera_fb_get p) [k..<k + n]"

definition warmup_frames :: "platform \<Rightarrow> world \<Rightarrow> camera_fb_t option list" where
  "warmup_frames p s = frames_from p (fb_gets s) (nat CAMERA_WARMUP_FRAMES)"

definition valid_frame :: "camera_fb_t option \<Rightarrow> bool" where
  "valid_frame fb = (case fb of None \<Rightarrow> False | Some f \<Rightarrow> MIN_FRAME_SIZE < len f)"

definition frame_events :: "camera_fb_t option \<Rightarrow> event list" where
  "frame_events fb =
     (case fb of
        None \<Rightarrow> [Fb_Get None, Task_Delay CAMERA_WARMUP_DELAY_MS]
      | Some f \<Rightarrow> [Fb_Get (Some f), Fb_Return f, Task_Delay CAMERA_WARMUP_DELAY_MS])"

text \<open>What \<^verbatim>\<open>camera.shutdown(); sdCard.shutdown();\<close> appends when both sessions are
  open and the sensor lookup is the \<open>g\<close>-th.\<close>

definition shutdown_events :: "platform \<Rightarrow> nat \<Rightarrow> event list" where
  "shutdown_events p g =
     (if esp_camera_sensor_get p g then [Sensor_Standby] else []) @
     [Camera_Deinit, Camera_Gpio_Reset, Sdcard_Unmount, Sd_Gpio_Reset]"

definition connected :: "platform \<Rightarrow> bool" where
  "connected p \<longleftrightarrow> wifi_connect p = ESP_OK \<and> wifi_isConnected p"

definition notify_events :: "platform \<Rightarrow> event list" where
  "notify_events p =
     Wifi_Connect (wifi_connect p) #
     (if connected p then [Telegram_Send (telegram_sendDocument p), Wifi_Disconnect] else []) @
     [Cooldown_Started COOLDOWN_SECONDS]"

definition confident :: "DetectionResult \<Rightarrow> bool" where
  "confident r \<longleftrightarrow> detected r \<and> MIN_CONFIDENCE \<le> confidence r"

text \<open>The result of \<^verbatim>\<open>detector.detect(frame)\<close>; it does not depend on the state.\<close>

definition detection :: "platform \<Rightarrow> camera_fb_t \<Rightarrow> DetectionResult" where
  "detection p fb = fst (Detector_detect p fb (process_start 0))"

text \<open>Sequences of cooldown queries.\<close>

datatype query = Q_isInCooldown | Q_getCooldownRemaining

fun run_queries :: "platform \<Rightarrow> query list \<Rightarrow> world \<Rightarrow> world" where
  "run_queries p [] s = s"
| "run_queries p (q # qs) s =
     run_queries p qs
       (case q of
          Q_isInCooldown \<Rightarrow> snd (isInCooldown p s)
        | Q_getCooldownRemaining \<Rightarrow> snd (getCooldownRemaining p s))"

subsection \<open>Concrete runs\<close>

text \<open>A PIR wake ten seconds of uptime into a process: storage and camera work, every
  frame has 20000 bytes, the model reports one detection with score 0.82, WiFi connects
  and the Telegram upload fails.\<close>

definition trigger_platform :: platform where
  "trigger_platform =
     \<lparr>esp_sleep_get_wakeup_cause = ESP_SLEEP_WAKEUP_EXT1,
      esp_timer_get_time = (\<lambda>k. 10000000),
      esp_vfs_fat_sdmmc_mount = ESP_OK,
      esp_camera_init = ESP_OK,
      esp_camera_sensor_get = (\<lambda>k. True),
      esp_camera_fb_get = (\<lambda>k. Some \<lparr>len = 20000\<rparr>),
      dl_detect = (\<lambda>fb. Some [82 / 100]),
      wifi_connect = ESP_OK,
      wifi_isConnected = True,
      telegram_sendDocument = ESP_FAIL\<rparr>"

text \<open>The same wake with no SD card, with a camera that fails to initialise, and with a
  camera that delivers no frame.\<close>

definition no_card_platform :: platform where
  "no_card_platform = trigger_platform\<lparr>esp_vfs_fat_sdmmc_mount := ESP_FAIL\<rparr>"

definition no_camera_platform :: platform where
  "no_camera_platform = trigger_platform\<lparr>esp_camera_init := ESP_FAIL\<rparr>"

definition no_frames_platform :: platform where
  "no_frames_platform = trigger_platform\<lparr>esp_camera_fb_get := (\<lambda>k. None)\<rparr>"

text \<open>The wake by the timer that the run on \<open>trigger_platform\<close> arms: the timer of
  \<^verbatim>\<open>esp_timer_get_time\<close> counts from boot (sleep\_manager.hpp: "current time in seconds
  since boot"), and a wake from deep sleep is a boot (app\_main.cpp: \<^verbatim>\<open>app_main\<close> "is
  called after every wake-up"), so it reads 0 again.\<close>

definition timer_wake_platform :: platform where
  "timer_wake_platform =
     trigger_platform\<lparr>esp_sleep_get_wakeup_cause := ESP_SLEEP_WAKEUP_TIMER,
                      esp_timer_get_time := (\<lambda>k. 0)\<rparr>"

text \<open>A PIR wake in the last second of a cooldown that lasts until second 3610: the
  first two reads of the clock fall at 3609.9 s, the later ones at 3610.05 s.\<close>

definition expiring_platform :: platform where
  "expiring_platform =
     trigger_platform\<lparr>esp_timer_get_time := (\<lambda>k. if k < 2 then 3609900000 else 3610050000)\<rparr>"

subsection \<open>The warmup loop in closed form\<close>

lemma frames_from_0: "frames_from p k 0 = []"
  by (simp add: frames_from_def)

lemma frames_from_Suc:
  "frames_from p k (Suc n) = esp_camera_fb_get p k # frames_from p (Suc k) n"
  by (simp add: frames_from_def upt_conv_Cons del: upt_Suc)

lemma length_frames_from: "length (frames_from p k n) = n"
  by (simp add: frames_from_def)

lemma warmup_loop_closed:
  "nat (CAMERA_WARMUP_FRAMES - i) = n \<Longrightarrow>
   warmup_loop p i v s =
     (v + int (length (filter valid_frame (frames_from p (fb_gets s) n))),
      s\<lparr>fb_gets := fb_gets s + n,
        trace := trace s @ concat (map frame_events (frames_from p (fb_gets s) n))\<rparr>)"
proof (induction n arbitrary: i v s)
  case 0
  then have "\<not> i < CAMERA_WARMUP_FRAMES" by simp
  then show ?case
    by (simp add: warmup_loop.simps [of p i v s] frames_from_0)
next
  case (Suc n)
  then have lt: "i < CAMERA_WARMUP_FRAMES" and n: "nat (CAMERA_WARMUP_FRAMES - (i + 1)) = n"
    by simp_all
  show ?case
  proof (cases "esp_camera_fb_get p (fb_gets s)")
    case None
    with lt show ?thesis
      by (simp add: warmup_loop.simps [of p i v s] Suc.IH [OF n] frames_from_Suc fb_get_def
          emit_def valid_frame_def frame_events_def Let_def)
  next
    case (Some f)
    with lt show ?thesis
      by (simp add: warmup_loop.simps [of p i v s] Suc.IH [OF n] frames_from_Suc fb_get_def
          emit_def valid_frame_def frame_events_def Let_def)
  qed
qed

lemma fst_warmup:
  "fst (CameraDriver_warmup p s) =
     (m_initialized s \<and>
      CAMERA_MIN_VALID_FRAMES \<le> int (length (filter valid_frame (warmup_frames p s))))"
  by (simp add: CameraDriver_warmup_def warmup_frames_def
      warmup_loop_closed [where n = "nat CAMERA_WARMUP_FRAMES"])

lemma snd_warmup:
  "snd (CameraDriver_warmup p s) =
     s\<lparr>fb_gets := fb_gets s + (if m_initialized s then nat CAMERA_WARMUP_FRAMES else 0),
       trace := trace s @
         (if m_initialized s then concat (map frame_events (warmup_frames p s)) else [])\<rparr>"
  by (simp add: CameraDriver_warmup_def warmup_frames_def
      warmup_loop_closed [where n = "nat CAMERA_WARMUP_FRAMES"])

subsection \<open>Every operation as an update of the state\<close>

lemma fst_isInCooldown:
  "fst (isInCooldown p s) =
     (div_1000000 (esp_timer_get_time p (timer_reads s)) <s s_nextPirAllowTime s)"
  by (simp add: isInCooldown_def getCurrentTimeSec_def)

lemma snd_isInCooldown:
  "snd (isInCooldown p s) = s\<lparr>timer_reads := timer_reads s + 1\<rparr>"
  by (simp add: isInCooldown_def getCurrentTimeSec_def)

lemma snd_getCooldownRemaining:
  "snd (getCooldownRemaining p s) = s\<lparr>timer_reads := timer_reads s + 1\<rparr>"
  by (simp add: getCooldownRemaining_def getCurrentTimeSec_def Let_def)

lemma wake_source_arm_at: "wake_source p s = arm_at p (timer_reads s) (s_nextPirAllowTime s)"
  by (simp add: wake_source_def arm_at_def isInCooldown_def getCooldownRemaining_def
      getCurrentTimeSec_def process_start_def Let_def)

lemma enterDeepSleep_closed:
  "enterDeepSleep p s =
     s\<lparr>timer_reads := timer_reads s + (if fst (isInCooldown p s) then 2 else 1),
       trace := trace s @ [wake_source p s, Task_Delay 100, Deep_Sleep_Start]\<rparr>"
  by (simp add: enterDeepSleep_def wake_source_def isInCooldown_def getCooldownRemaining_def
      getCurrentTimeSec_def emit_def Let_def)

lemma trace_enterDeepSleep:
  "trace (enterDeepSleep p s) = trace s @ sleep_events p (timer_reads s) (s_nextPirAllowTime s)"
  by (simp add: enterDeepSleep_closed wake_source_arm_at sleep_events_def)

lemma rtc_enterDeepSleep:
  "s_nextPirAllowTime (enterDeepSleep p s) = s_nextPirAllowTime s"
  by (simp add: enterDeepSleep_closed)

lemma fst_mount:
  "fst (SdCardDriver_mount p s) = (if m_card s then ESP_OK else esp_vfs_fat_sdmmc_mount p)"
  by (simp add: SdCardDriver_mount_def Let_def)

lemma snd_mount:
  "snd (SdCardDriver_mount p s) =
     s\<lparr>m_card := m_card s \<or> esp_vfs_fat_sdmmc_mount p = ESP_OK,
       trace := trace s @ (if m_card s then [] else [Sdmmc_Mount (esp_vfs_fat_sdmmc_mount p)])\<rparr>"
  by (cases s) (simp add: SdCardDriver_mount_def Let_def emit_def)

lemma SdCardDriver_shutdown_closed:
  "SdCardDriver_shutdown s =
     s\<lparr>m_card := False,
       trace := trace s @ (if m_card s then [Sdcard_Unmount, Sd_Gpio_Reset] else [])\<rparr>"
  by (cases s) (simp add: SdCardDriver_shutdown_def emit_def)

lemma fst_init:
  "fst (CameraDriver_init p s) =
     (if m_initialized s then ESP_OK
      else if esp_camera_init p \<noteq> ESP_OK then esp_camera_init p
      else if esp_camera_sensor_get p (sensor_gets s) then ESP_OK else ESP_FAIL)"
  by (simp add: CameraDriver_init_def sensor_get_def emit_def Let_def)

lemma snd_init:
  "snd (CameraDriver_init p s) =
     s\<lparr>m_initialized :=
         m_initialized s \<or> esp_camera_init p = ESP_OK \<and> esp_camera_sensor_get p (sensor_gets s),
       sensor_gets :=
         sensor_gets s + (if \<not> m_initialized s \<and> esp_camera_init p = ESP_OK then 1 else 0),
       trace := trace s @
         (if m_initialized s then []
          else Camera_Init (esp_camera_init p) #
            (if esp_camera_init p \<noteq> ESP_OK then []
             else if esp_camera_sensor_get p (sensor_gets s) then [Sensor_Settings]
             else [Camera_Deinit]))\<rparr>"
  by (cases s) (simp add: CameraDriver_init_def sensor_get_def emit_def Let_def)

lemma fst_capture:
  "fst (CameraDriver_capture p s) =
     (if \<not> m_initialized s then None
      else case esp_camera_fb_get p (fb_gets s) of
             None \<Rightarrow> None
           | Some f \<Rightarrow> if len f < MIN_FRAME_SIZE then None else Some f)"
  by (simp add: CameraDriver_capture_def fb_get_def emit_def Let_def split: option.splits)

lemma snd_capture:
  "snd (CameraDriver_capture p s) =
     s\<lparr>fb_gets := fb_gets s + (if m_initialized s then 1 else 0),
       trace := trace s @
         (if m_initialized s
          then (case esp_camera_fb_get p (fb_gets s) of
                  None \<Rightarrow> [Fb_Get None]
                | Some f \<Rightarrow> if len f < MIN_FRAME_SIZE then [Fb_Get (Some f), Fb_Return f]
                            else [Fb_Get (Some f)])
          else [])\<rparr>"
  by (cases s)
    (simp add: CameraDriver_capture_def fb_get_def emit_def Let_def split: option.splits)

lemma CameraDriver_shutdown_closed:
  "CameraDriver_shutdown p s =
     s\<lparr>m_initialized := False,
       sensor_gets := sensor_gets s + (if m_initialized s then 1 else 0),
       trace := trace s @
         (if m_initialized s
          then (if esp_camera_sensor_get p (sensor_gets s) then [Sensor_Standby] else []) @
               [Camera_Deinit, Camera_Gpio_Reset]
          else [])\<rparr>"
  by (cases s) (simp add: CameraDriver_shutdown_def sensor_get_def emit_def Let_def)

lemma notify_and_cooldown_closed:
  "notify_and_cooldown p s =
     s\<lparr>s_nextPirAllowTime :=
         div_1000000
           (esp_timer_get_time p (timer_reads s + (if connected p then 1 else 0)))
         + COOLDOWN_SECONDS,
       timer_reads := timer_reads s + (if connected p then 2 else 1),
       trace := trace s @ notify_events p\<rparr>"
  by (simp add: notify_and_cooldown_def startCooldown_def getCurrentTimeSec_def emit_def Let_def
      connected_def notify_events_def)

lemma fst_detect: "fst (Detector_detect p fb s) = detection p fb"
  by (simp add: detection_def Detector_detect_def Let_def)

lemma snd_detect:
  "snd (Detector_detect p fb s) = s\<lparr>trace := trace s @ [Detect (detection p fb)]\<rparr>"
  by (simp add: detection_def Detector_detect_def emit_def Let_def)

lemma cleanup_closed:
  "cleanup p (Some fb) s =
     SdCardDriver_shutdown (CameraDriver_shutdown p (s\<lparr>trace := trace s @ [Fb_Return fb]\<rparr>))"
  by (simp add: cleanup_def CameraDriver_returnFrame_def emit_def)

lemmas effects =
  snd_isInCooldown snd_getCooldownRemaining fst_mount snd_mount SdCardDriver_shutdown_closed
  fst_init snd_init fst_warmup snd_warmup fst_capture snd_capture CameraDriver_shutdown_closed
  notify_and_cooldown_closed snd_detect fst_detect cleanup_closed SdCardDriver_def
  CameraDriver_def trace_enterDeepSleep rtc_enterDeepSleep

subsection \<open>The trace of \<open>handlePirTrigger\<close>, path by path\<close>

lemma path_abort:
  assumes "fst (isInCooldown p s)"
  shows "trace (handlePirTrigger p s) =
         trace s @ sleep_events p (timer_reads s + 2) (s_nextPirAllowTime s)"
    and "s_nextPirAllowTime (handlePirTrigger p s) = s_nextPirAllowTime s"
  using assms by (simp_all add: handlePirTrigger_def effects Let_def split_def)

lemma path_mount_failed:
  assumes "\<not> fst (isInCooldown p s)" "esp_vfs_fat_sdmmc_mount p \<noteq> ESP_OK"
  shows "trace (handlePirTrigger p s) =
         trace s @ [Sdmmc_Mount (esp_vfs_fat_sdmmc_mount p)] @
         sleep_events p (timer_reads s + 1) (s_nextPirAllowTime s)"
    and "s_nextPirAllowTime (handlePirTrigger p s) = s_nextPirAllowTime s"
  using assms by (simp_all add: handlePirTrigger_def effects Let_def split_def)

lemma path_init_failed:
  assumes "\<not> fst (isInCooldown p s)" "esp_vfs_fat_sdmmc_mount p = ESP_OK"
    "esp_camera_init p \<noteq> ESP_OK"
  shows "trace (handlePirTrigger p s) =
         trace s @
         [Sdmmc_Mount ESP_OK, Camera_Init (esp_camera_init p), Sdcard_Unmount, Sd_Gpio_Reset] @
         sleep_events p (timer_reads s + 1) (s_nextPirAllowTime s)"
    and "s_nextPirAllowTime (handlePirTrigger p s) = s_nextPirAllowTime s"
  using assms by (simp_all add: handlePirTrigger_def effects Let_def split_def)

lemma path_sensor_missing:
  assumes "\<not> fst (isInCooldown p s)" "esp_vfs_fat_sdmmc_mount p = ESP_OK"
    "esp_camera_init p = ESP_OK" "\<not> esp_camera_sensor_get p (sensor_gets s)"
  shows "trace (handlePirTrigger p s) =
         trace s @
         [Sdmmc_Mount ESP_OK, Camera_Init ESP_OK, Camera_Deinit, Sdcard_Unmount, Sd_Gpio_Reset] @
         sleep_events p (timer_reads s + 1) (s_nextPirAllowTime s)"
    and "s_nextPirAllowTime (handlePirTrigger p s) = s_nextPirAllowTime s"
  using assms
  by (simp_all add: handlePirTrigger_def effects Let_def split_def ESP_OK_def ESP_FAIL_def)

lemma path_warmup_failed:
  assumes "\<not> fst (isInCooldown p s)" "esp_vfs_fat_sdmmc_mount p = ESP_OK"
    "esp_camera_init p = ESP_OK" "esp_camera_sensor_get p (sensor_gets s)"
    "\<not> CAMERA_MIN_VALID_FRAMES \<le> int (length (filter valid_frame (warmup_frames p s)))"
  shows "trace (handlePirTrigger p s) =
         trace s @ [Sdmmc_Mount ESP_OK, Camera_Init ESP_OK, Sensor_Settings] @
         concat (map frame_events (warmup_frames p s)) @
         shutdown_events p (sensor_gets s + 1) @
         sleep_events p (timer_reads s + 1) (s_nextPirAllowTime s)"
    and "s_nextPirAllowTime (handlePirTrigger p s) = s_nextPirAllowTime s"
  using assms
  by (simp_all add: handlePirTrigger_def effects Let_def split_def warmup_frames_def
      shutdown_events_def)

lemma path_capture_null:
  assumes "\<not> fst (isInCooldown p s)" "esp_vfs_fat_sdmmc_mount p = ESP_OK"
    "esp_camera_init p = ESP_OK" "esp_camera_sensor_get p (sensor_gets s)"
    "CAMERA_MIN_VALID_FRAMES \<le> int (length (filter valid_frame (warmup_frames p s)))"
    "esp_camera_fb_get p (fb_gets s + nat CAMERA_WARMUP_FRAMES) = None"
  shows "trace (handlePirTrigger p s) =
         trace s @ [Sdmmc_Mount ESP_OK, Camera_Init ESP_OK, Sensor_Settings] @
         concat (map frame_events (warmup_frames p s)) @ [Fb_Get None] @
         shutdown_events p (sensor_gets s + 1) @
         sleep_events p (timer_reads s + 1) (s_nextPirAllowTime s)"
    and "s_nextPirAllowTime (handlePirTrigger p s) = s_nextPirAllowTime s"
  using assms
  by (simp_all add: handlePirTrigger_def effects Let_def split_def warmup_frames_def
      shutdown_events_def)

lemma path_capture_small:
  assumes "\<not> fst (isInCooldown p s)" "esp_vfs_fat_sdmmc_mount p = ESP_OK"
    "esp_camera_init p = ESP_OK" "esp_camera_sensor_get p (sensor_gets s)"
    "CAMERA_MIN_VALID_FRAMES \<le> int (length (filter valid_frame (warmup_frames p s)))"
    "esp_camera_fb_get p (fb_gets s + nat CAMERA_WARMUP_FRAMES) = Some fb"
    "len fb < MIN_FRAME_SIZE"
  shows "trace (handlePirTrigger p s) =
         trace s @ [Sdmmc_Mount ESP_OK, Camera_Init ESP_OK, Sensor_Settings] @
         concat (map frame_events (warmup_frames p s)) @ [Fb_Get (Some fb), Fb_Return fb] @
         shutdown_events p (sensor_gets s + 1) @
         sleep_events p (timer_reads s + 1) (s_nextPirAllowTime s)"
    and "s_nextPirAllowTime (handlePirTrigger p s) = s_nextPirAllowTime s"
  using assms
  by (simp_all add: handlePirTrigger_def effects Let_def split_def warmup_frames_def
      shutdown_events_def)

lemma path_completed:
  assumes "\<not> fst (isInCooldown p s)" "esp_vfs_fat_sdmmc_mount p = ESP_OK"
    "esp_camera_init p = ESP_OK" "esp_camera_sensor_get p (sensor_gets s)"
    "CAMERA_MIN_VALID_FRAMES \<le> int (length (filter valid_frame (warmup_frames p s)))"
    "esp_camera_fb_get p (fb_gets s + nat CAMERA_WARMUP_FRAMES) = Some fb"
    "\<not> len fb < MIN_FRAME_SIZE"
  shows "trace (handlePirTrigger p s) =
         trace s @ [Sdmmc_Mount ESP_OK, Camera_Init ESP_OK, Sensor_Settings] @
         concat (map frame_events (warmup_frames p s)) @
         [Fb_Get (Some fb), Detect (detection p fb)] @
         (if confident (detection p fb) then notify_events p else []) @
         [Fb_Return fb] @ shutdown_events p (sensor_gets s + 1) @
         sleep_events p
           (timer_reads s + 1 +
              (if confident (detection p fb) then (if connected p then 2 else 1) else 0))
           (if confident (detection p fb)
            then div_1000000 (esp_timer_get_time p
                   (timer_reads s + 1 + (if connected p then 1 else 0))) + COOLDOWN_SECONDS
            else s_nextPirAllowTime s)"
    and "s_nextPirAllowTime (handlePirTrigger p s) =
         (if confident (detection p fb)
          then div_1000000 (esp_timer_get_time p
                 (timer_reads s + 1 + (if connected p then 1 else 0))) + COOLDOWN_SECONDS
          else s_nextPirAllowTime s)"
  using assms
  by (simp_all add: handlePirTrigger_def effects Let_def split_def warmup_frames_def
      shutdown_events_def confident_def)

text \<open>The eight paths are all there are.\<close>

lemma pir_paths [case_names abort mount_failed init_failed sensor_missing warmup_failed
    capture_null capture_small completed]:
  assumes "fst (isInCooldown p s) \<Longrightarrow> thesis"
    and "\<lbrakk>\<not> fst (isInCooldown p s); esp_vfs_fat_sdmmc_mount p \<noteq> ESP_OK\<rbrakk> \<Longrightarrow> thesis"
    and "\<lbrakk>\<not> fst (isInCooldown p s); esp_vfs_fat_sdmmc_mount p = ESP_OK;
          esp_camera_init p \<noteq> ESP_OK\<rbrakk> \<Longrightarrow> thesis"
    and "\<lbrakk>\<not> fst (isInCooldown p s); esp_vfs_fat_sdmmc_mount p = ESP_OK;
          esp_camera_init p = ESP_OK; \<not> esp_camera_sensor_get p (sensor_gets s)\<rbrakk> \<Longrightarrow> thesis"
    and "\<lbrakk>\<not> fst (isInCooldown p s); esp_vfs_fat_sdmmc_mount p = ESP_OK;
          esp_camera_init p = ESP_OK; esp_camera_sensor_get p (sensor_gets s);
          \<not> CAMERA_MIN_VALID_FRAMES \<le> int (length (filter valid_frame (warmup_frames p s)))\<rbrakk>
         \<Longrightarrow> thesis"
    and "\<lbrakk>\<not> fst (isInCooldown p s); esp_vfs_fat_sdmmc_mount p = ESP_OK;
          esp_camera_init p = ESP_OK; esp_camera_sensor_get p (sensor_gets s);
          CAMERA_MIN_VALID_FRAMES \<le> int (length (filter valid_frame (warmup_frames p s)));
          esp_camera_fb_get p (fb_gets s + nat CAMERA_WARMUP_FRAMES) = None\<rbrakk> \<Longrightarrow> thesis"
    and "\<And>fb. \<lbrakk>\<not> fst (isInCooldown p s); esp_vfs_fat_sdmmc_mount p = ESP_OK;
          esp_camera_init p = ESP_OK; esp_camera_sensor_get p (sensor_gets s);
          CAMERA_MIN_VALID_FRAMES \<le> int (length (filter valid_frame (warmup_frames p s)));
          esp_camera_fb_get p (fb_gets s + nat CAMERA_WARMUP_FRAMES) = Some fb;
          len fb < MIN_FRAME_SIZE\<rbrakk> \<Longrightarrow> thesis"
    and "\<And>fb. \<lbrakk>\<not> fst (isInCooldown p s); esp_vfs_fat_sdmmc_mount p = ESP_OK;
          esp_camera_init p = ESP_OK; esp_camera_sensor_get p (sensor_gets s);
          CAMERA_MIN_VALID_FRAMES \<le> int (length (filter valid_frame (warmup_frames p s)));
          esp_camera_fb_get p (fb_gets s + nat CAMERA_WARMUP_FRAMES) = Some fb;
          \<not> len fb < MIN_FRAME_SIZE\<rbrakk> \<Longrightarrow> thesis"
  shows thesis
  using assms by (cases "esp_camera_fb_get p (fb_gets s + nat CAMERA_WARMUP_FRAMES)") blast+

subsection \<open>Facts about the event lists\<close>

lemma arm_at_cases:
  "(\<exists>d. arm_at p k a = Enable_Timer_Wakeup d) \<or> arm_at p k a = Enable_Ext1_Wakeup (push_bit PIN 1)"
  by (simp add: arm_at_def wake_source_def)

lemma arm_at_simps [simp]:
  "is_wake_source (arm_at p k a)"
  "\<not> is_cooldown_started (arm_at p k a)"
  "\<not> acquired r (arm_at p k a)"
  "\<not> released r (arm_at p k a)"
  "session_acquired (arm_at p k a) = []"
  "session_released (arm_at p k a) = []"
  "arm_at p k a \<noteq> Detect d"
  "Detect d \<noteq> arm_at p k a"
  using arm_at_cases [of p k a] by (auto simp: arm_at_def)

lemma frame_events_simps [simp]:
  "filter is_wake_source (concat (map frame_events fs)) = []"
  "filter is_cooldown_started (concat (map frame_events fs)) = []"
  "filter (acquired Storage_Session) (concat (map frame_events fs)) = []"
  "filter (released Storage_Session) (concat (map frame_events fs)) = []"
  "filter (acquired Imaging_Session) (concat (map frame_events fs)) = []"
  "filter (released Imaging_Session) (concat (map frame_events fs)) = []"
  "concat (map session_acquired (concat (map frame_events fs))) = []"
  "concat (map session_released (concat (map frame_events fs))) = []"
  by (induction fs) (simp_all add: frame_events_def split: option.splits)

lemma frame_events_balanced [simp]:
  "length (filter (acquired Captured_Frame) (concat (map frame_events fs))) =
   length (filter (released Captured_Frame) (concat (map frame_events fs)))"
  by (induction fs) (simp_all add: frame_events_def split: option.splits)

lemma frame_events_no_detect [simp]: "Detect d \<notin> set (frame_events fb)"
  by (simp add: frame_events_def split: option.splits)

lemma sleep_events_simps [simp]:
  "filter is_wake_source (sleep_events p k a) = [arm_at p k a]"
  "filter is_cooldown_started (sleep_events p k a) = []"
  "filter (acquired r) (sleep_events p k a) = []"
  "filter (released r) (sleep_events p k a) = []"
  "concat (map session_acquired (sleep_events p k a)) = []"
  "concat (map session_released (sleep_events p k a)) = []"
  "Detect d \<notin> set (sleep_events p k a)"
  "sleep_events p k a \<noteq> []"
  "last (sleep_events p k a) = Deep_Sleep_Start"
  "butlast (sleep_events p k a) = [arm_at p k a, Task_Delay 100]"
  by (simp_all add: sleep_events_def)

lemma shutdown_events_simps [simp]:
  "filter is_wake_source (shutdown_events p g) = []"
  "filter is_cooldown_started (shutdown_events p g) = []"
  "filter (acquired r) (shutdown_events p g) = []"
  "filter (released Storage_Session) (shutdown_events p g) = [Sdcard_Unmount]"
  "filter (released Imaging_Session) (shutdown_events p g) = [Camera_Deinit]"
  "filter (released Captured_Frame) (shutdown_events p g) = []"
  "concat (map session_acquired (shutdown_events p g)) = []"
  "concat (map session_released (shutdown_events p g)) = [Imaging_Session, Storage_Session]"
  "Detect d \<notin> set (shutdown_events p g)"
  by (simp_all add: shutdown_events_def)

lemma notify_events_simps [simp]:
  "filter is_wake_source (notify_events p) = []"
  "filter is_cooldown_started (notify_events p) = [Cooldown_Started COOLDOWN_SECONDS]"
  "filter (acquired r) (notify_events p) = []"
  "filter (released r) (notify_events p) = []"
  "concat (map session_acquired (notify_events p)) = []"
  "concat (map session_released (notify_events p)) = []"
  "Detect d \<notin> set (notify_events p)"
  by (auto simp: notify_events_def)

lemma app_main_dispatch:
  "app_main p s =
     (case esp_sleep_get_wakeup_cause p of
        ESP_SLEEP_WAKEUP_UNDEFINED \<Rightarrow>
          enterDeepSleep p (emit (Task_Delay WARMUP_MS) (SleepManager p s))
      | ESP_SLEEP_WAKEUP_EXT1 \<Rightarrow> handlePirTrigger p (SleepManager p s)
      | ESP_SLEEP_WAKEUP_TIMER \<Rightarrow> enterDeepSleep p (SleepManager p s)
      | ESP_SLEEP_WAKEUP_OTHER c \<Rightarrow> enterDeepSleep p (SleepManager p s))"
  by (simp add: app_main_def SleepManager_def getWakeReason_def handlePowerOnBoot_def
      handleTimerWakeup_def split: esp_sleep_wakeup_cause_t.splits)

lemma SleepManager_fields [simp]:
  "trace (SleepManager p s) = trace s"
  "s_nextPirAllowTime (SleepManager p s) = s_nextPirAllowTime s"
  "timer_reads (SleepManager p s) = timer_reads s"
  "sensor_gets (SleepManager p s) = sensor_gets s"
  "fb_gets (SleepManager p s) = fb_gets s"
  "m_card (SleepManager p s) = m_card s"
  "m_initialized (SleepManager p s) = m_initialized s"
  by (simp_all add: SleepManager_def)

lemma process_start_fields [simp]:
  "trace (process_start rtc) = []"
  "s_nextPirAllowTime (process_start rtc) = rtc"
  "timer_reads (process_start rtc) = 0"
  "sensor_gets (process_start rtc) = 0"
  "fb_gets (process_start rtc) = 0"
  "m_card (process_start rtc) = False"
  "m_initialized (process_start rtc) = False"
  by (simp_all add: process_start_def)

lemma fst_isInCooldown_SleepManager [simp]:
  "fst (isInCooldown p (SleepManager p s)) = fst (isInCooldown p s)"
  by (simp add: fst_isInCooldown)

lemma warmup_frames_SleepManager [simp]:
  "warmup_frames p (SleepManager p s) = warmup_frames p s"
  by (simp add: warmup_frames_def)

lemmas paths =
  path_abort path_mount_failed path_init_failed path_sensor_missing path_warmup_failed
  path_capture_null path_capture_small path_completed

subsection \<open>Whole runs\<close>

lemma wake_sources_pir:
  "trace s = [] \<Longrightarrow> length (filter is_wake_source (trace (handlePirTrigger p s))) = 1"
  by (cases rule: pir_paths [of p s])
    (simp_all add: paths)

lemma wake_sources_app_main:
  "length (filter is_wake_source (trace (app_main p (process_start rtc)))) = 1"
  by (cases "esp_sleep_get_wakeup_cause p")
    (simp_all add: app_main_dispatch trace_enterDeepSleep emit_def wake_sources_pir)

lemma balance_pir:
  assumes "trace s = []"
  shows "length (filter (acquired r) (trace (handlePirTrigger p s))) =
         length (filter (released r) (trace (handlePirTrigger p s)))"
  using assms
  by (cases rule: pir_paths [of p s]; cases r)
    (simp_all add: paths)

lemma order_pir:
  assumes "trace s = []"
  shows "concat (map session_released (trace (handlePirTrigger p s))) =
         rev (concat (map session_acquired (trace (handlePirTrigger p s))))"
  using assms
  by (cases rule: pir_paths [of p s])
    (simp_all add: paths)

lemma no_cooldown_pir:
  assumes "trace s = []" "filter is_cooldown_started (trace (handlePirTrigger p s)) = []"
  shows "s_nextPirAllowTime (handlePirTrigger p s) = s_nextPirAllowTime s"
  using assms by (cases rule: pir_paths [of p s]) (simp_all add: paths split: if_splits)

lemma release_once_pir:
  assumes "trace s = []"
  shows "length (filter (released Storage_Session) (trace (handlePirTrigger p s))) \<le> 1"
    and "length (filter (released Imaging_Session) (trace (handlePirTrigger p s))) \<le> 1"
  using assms by (cases rule: pir_paths [of p s]; simp add: paths)+

subsection \<open>Signed arithmetic\<close>

lemma sint_sub_no_overflow:
  fixes a b :: int64_t
  assumes "- (2 ^ 63) \<le> sint a - sint b" and "sint a - sint b < 2 ^ 63"
  shows "sint (a - b) = sint a - sint b"
  using assms by (simp add: sint_word_ariths signed_take_bit_int_eq_self)

lemma sint_div_1000000_nonneg:
  assumes "0 \<le> sint t"
  shows "sint (div_1000000 t) = sint t div 1000000"
proof -
  have lt: "sint t < 2 ^ 63"
    using sint_lt [of t] by simp
  have "sint t div 1000000 \<le> sint t"
    using assms zdiv_mono2 [of "sint t" 1 1000000] by simp
  with lt assms have "- (2 ^ 63) \<le> sint t div 1000000" and "sint t div 1000000 < 2 ^ 63"
    by (simp_all add: pos_imp_zdiv_nonneg_iff order.trans [of _ 0])
  then have "sint (word_of_int (sint t div 1000000) :: int64_t) = sint t div 1000000"
    by (simp add: sint_word_ariths signed_take_bit_int_eq_self Word.sint_sbintrunc')
  moreover have "sint t sdiv 1000000 = sint t div 1000000"
    using assms by (simp add: signed_divide_int_def sgn_if)
  ultimately show ?thesis
    by (simp add: div_1000000_def)
qed

lemma not_cooling_at_zero:
  assumes "0 \<le> sint (esp_timer_get_time p k)"
  shows "arm_at p k 0 = Enable_Ext1_Wakeup (push_bit PIN 1)"
proof -
  have "0 \<le> sint (div_1000000 (esp_timer_get_time p k))"
    using assms by (simp add: sint_div_1000000_nonneg pos_imp_zdiv_nonneg_iff)
  then have "\<not> div_1000000 (esp_timer_get_time p k) <s 0"
    by (simp add: word_sless_alt)
  then show ?thesis
    by (simp add: arm_at_def wake_source_def fst_isInCooldown)
qed

subsection \<open>Runs with and without a confident detection\<close>

lemma confident_run_cooldown:
  assumes "trace s = []" "Detect r \<in> set (trace (handlePirTrigger p s))" "confident r"
  shows "filter is_cooldown_started (butlast (trace (handlePirTrigger p s))) =
           [Cooldown_Started COOLDOWN_SECONDS]"
  using assms by (cases rule: pir_paths [of p s]) (simp_all add: paths butlast_append)

lemma confident_run_last:
  assumes "trace s = []"
  shows "last (trace (handlePirTrigger p s)) = Deep_Sleep_Start"
  using assms by (cases rule: pir_paths [of p s]) (simp_all add: paths)

lemma confident_run_rtc:
  assumes "trace s = []" "Detect r \<in> set (trace (handlePirTrigger p s))" "confident r"
  shows "s_nextPirAllowTime (handlePirTrigger p s) =
           div_1000000 (esp_timer_get_time p (timer_reads s + 1 + (if connected p then 1 else 0)))
           + COOLDOWN_SECONDS"
  using assms by (cases rule: pir_paths [of p s]) (simp_all add: paths)

lemma unconfident_run_cooldown:
  assumes "trace s = []" "\<forall>r. Detect r \<in> set (trace (handlePirTrigger p s)) \<longrightarrow> \<not> confident r"
  shows "filter is_cooldown_started (trace (handlePirTrigger p s)) = []"
  using assms by (cases rule: pir_paths [of p s]) (simp_all add: paths)

lemma unconfident_run_rtc:
  assumes "trace s = []" "\<forall>r. Detect r \<in> set (trace (handlePirTrigger p s)) \<longrightarrow> \<not> confident r"
  shows "s_nextPirAllowTime (handlePirTrigger p s) = s_nextPirAllowTime s"
  using assms by (cases rule: pir_paths [of p s]) (simp_all add: paths)

lemma unconfident_run_wake:
  assumes "trace s = []" "\<forall>r. Detect r \<in> set (trace (handlePirTrigger p s)) \<longrightarrow> \<not> confident r"
  shows "filter is_wake_source (trace (handlePirTrigger p s)) =
           [arm_at p (timer_reads s + (if fst (isInCooldown p s) then 2 else 1))
              (s_nextPirAllowTime s)]"
  using assms by (cases rule: pir_paths [of p s]) (simp_all add: paths)

lemma frame_events_fb_gets [simp]:
  "length (filter is_fb_get (concat (map frame_events fs))) = length fs"
  by (induction fs) (simp_all add: frame_events_def split: option.splits)

lemma warmup_frames_const:
  assumes "\<And>k. esp_camera_fb_get p k = fb"
  shows "warmup_frames p s = replicate (nat CAMERA_WARMUP_FRAMES) fb"
proof -
  have "esp_camera_fb_get p = (\<lambda>k. fb)"
    using assms by (intro ext)
  then show ?thesis
    by (simp add: warmup_frames_def frames_from_def map_replicate_const)
qed

subsection \<open>The concrete runs, evaluated\<close>

lemma div_1000000_numerals [simp]:
  "div_1000000 10000000 = 10" "div_1000000 0 = 0"
  by (simp_all add: div_1000000_def signed_divide_int_def)

lemma trigger_platform_simps [simp]:
  "esp_sleep_get_wakeup_cause trigger_platform = ESP_SLEEP_WAKEUP_EXT1"
  "esp_timer_get_time trigger_platform k = 10000000"
  "esp_vfs_fat_sdmmc_mount trigger_platform = ESP_OK"
  "esp_camera_init trigger_platform = ESP_OK"
  "esp_camera_sensor_get trigger_platform g"
  "esp_camera_fb_get trigger_platform n = Some \<lparr>len = 20000\<rparr>"
  "connected trigger_platform"
  "detection trigger_platform \<lparr>len = 20000\<rparr> = \<lparr>detected = True, confidence = 82 / 100\<rparr>"
  by (simp_all add: trigger_platform_def connected_def detection_def Detector_detect_def
      Let_def)

lemma warmup_ok_trigger_platform:
  "CAMERA_MIN_VALID_FRAMES
     \<le> int (length (filter valid_frame (warmup_frames trigger_platform s)))"
  by (simp add: warmup_frames_const [where fb = "Some \<lparr>len = 20000\<rparr>"] valid_frame_def
      MIN_FRAME_SIZE_def CAMERA_MIN_VALID_FRAMES_def CAMERA_WARMUP_FRAMES_def)

lemma trigger_run:
  "trace (app_main trigger_platform (process_start 0)) =
     [Sdmmc_Mount ESP_OK, Camera_Init ESP_OK, Sensor_Settings] @
     concat (map frame_events (replicate 25 (Some \<lparr>len = 20000\<rparr>))) @
     [Fb_Get (Some \<lparr>len = 20000\<rparr>), Detect \<lparr>detected = True, confidence = 82 / 100\<rparr>,
      Wifi_Connect ESP_OK, Telegram_Send ESP_FAIL, Wifi_Disconnect, Cooldown_Started 3600,
      Fb_Return \<lparr>len = 20000\<rparr>, Sensor_Standby, Camera_Deinit, Camera_Gpio_Reset,
      Sdcard_Unmount, Sd_Gpio_Reset, Enable_Timer_Wakeup 3600000000, Task_Delay 100,
      Deep_Sleep_Start]"
  "s_nextPirAllowTime (app_main trigger_platform (process_start 0)) = 3610"
proof -
  let ?s = "SleepManager trigger_platform (process_start 0)"
  have c: "\<not> fst (isInCooldown trigger_platform ?s)"
    by (simp add: fst_isInCooldown word_sless_alt)
  have l: "\<not> len \<lparr>len = 20000\<rparr> < MIN_FRAME_SIZE"
    by (simp add: MIN_FRAME_SIZE_def)
  note run = path_completed [of trigger_platform ?s "\<lparr>len = 20000\<rparr>", OF c _ _ _
      warmup_ok_trigger_platform _ l]
  have arm: "arm_at trigger_platform k 3610 = Enable_Timer_Wakeup 3600000000" for k
    by (simp add: arm_at_def wake_source_def fst_isInCooldown snd_isInCooldown
        getCooldownRemaining_def getCurrentTimeSec_def word_sless_alt)
  have ev: "notify_events trigger_platform =
      [Wifi_Connect ESP_OK, Telegram_Send ESP_FAIL, Wifi_Disconnect, Cooldown_Started 3600]"
    by (simp add: notify_events_def COOLDOWN_SECONDS_def connected_def trigger_platform_def)
  show "trace (app_main trigger_platform (process_start 0)) =
     [Sdmmc_Mount ESP_OK, Camera_Init ESP_OK, Sensor_Settings] @
     concat (map frame_events (replicate 25 (Some \<lparr>len = 20000\<rparr>))) @
     [Fb_Get (Some \<lparr>len = 20000\<rparr>), Detect \<lparr>detected = True, confidence = 82 / 100\<rparr>,
      Wifi_Connect ESP_OK, Telegram_Send ESP_FAIL, Wifi_Disconnect, Cooldown_Started 3600,
      Fb_Return \<lparr>len = 20000\<rparr>, Sensor_Standby, Camera_Deinit, Camera_Gpio_Reset,
      Sdcard_Unmount, Sd_Gpio_Reset, Enable_Timer_Wakeup 3600000000, Task_Delay 100,
      Deep_Sleep_Start]"
    by (simp add: app_main_dispatch run(1) ev arm COOLDOWN_SECONDS_def confident_def
        MIN_CONFIDENCE_def
        warmup_frames_const [where fb = "Some \<lparr>len = 20000\<rparr>"] CAMERA_WARMUP_FRAMES_def
        shutdown_events_def sleep_events_def)
  show "s_nextPirAllowTime (app_main trigger_platform (process_start 0)) = 3610"
    by (simp add: app_main_dispatch run(2) COOLDOWN_SECONDS_def confident_def
        MIN_CONFIDENCE_def)
qed

lemma no_camera_run:
  "trace (app_main no_camera_platform (process_start 0)) =
     [Sdmmc_Mount ESP_OK, Camera_Init ESP_FAIL, Sdcard_Unmount, Sd_Gpio_Reset,
      Enable_Ext1_Wakeup 8, Task_Delay 100, Deep_Sleep_Start]"
proof -
  let ?p = no_camera_platform
  let ?s = "SleepManager ?p (process_start 0)"
  have c: "\<not> fst (isInCooldown ?p ?s)"
    by (simp add: fst_isInCooldown word_sless_alt no_camera_platform_def)
  have m: "esp_vfs_fat_sdmmc_mount ?p = ESP_OK"
    by (simp add: no_camera_platform_def)
  have i: "esp_camera_init ?p \<noteq> ESP_OK"
    by (simp add: no_camera_platform_def ESP_OK_def ESP_FAIL_def)
  have clock: "0 \<le> sint (esp_timer_get_time ?p k)" for k
    by (simp add: no_camera_platform_def)
  show ?thesis
    using path_init_failed(1) [OF c m i] clock
    by (simp add: app_main_dispatch sleep_events_def not_cooling_at_zero PIN_def
        no_camera_platform_def)
qed

section \<open>Properties\<close>

text \<open>
  C1. The clock behind \<^verbatim>\<open>getCurrentTimeSec\<close> is \<^verbatim>\<open>esp_timer_get_time\<close>, the time since
  boot. Two process lifetimes, evaluated. First a PIR wake at 10 s of uptime with a
  confident detection: the cooldown is started, the persisted timestamp becomes 3610 and
  the timer wake is armed for 3600 s. Then the wake by that timer, after the full 3600 s
  of sleep, with the timer at 0 again: \<^verbatim>\<open>getCooldownRemaining\<close> returns 3610 and not 0,
  \<^verbatim>\<open>isInCooldown\<close> still holds, and the run arms the timer wake for another 3610 s
  instead of the PIR wake.
\<close>

theorem C1_remaining_after_wake_ignores_sleep:
  "s_nextPirAllowTime (app_main trigger_platform (process_start 0)) = 3610
   \<and> filter is_wake_source (trace (app_main trigger_platform (process_start 0))) =
       [Enable_Timer_Wakeup 3600000000]
   \<and> fst (getCooldownRemaining timer_wake_platform (process_start 3610)) = 3610
   \<and> fst (isInCooldown timer_wake_platform (process_start 3610))
   \<and> trace (app_main timer_wake_platform (process_start 3610)) =
       [Enable_Timer_Wakeup 3610000000, Task_Delay 100, Deep_Sleep_Start]"
proof -
  have t [simp]: "esp_timer_get_time timer_wake_platform k = 0" for k
    by (simp add: timer_wake_platform_def)
  have r: "fst (getCooldownRemaining timer_wake_platform s) = s_nextPirAllowTime s" 
    if "0 <s s_nextPirAllowTime s" for s
    using that by (simp add: getCooldownRemaining_def getCurrentTimeSec_def)
  have c: "fst (isInCooldown timer_wake_platform (process_start 3610))"
    by (simp add: fst_isInCooldown word_sless_alt)
  have w: "esp_sleep_get_wakeup_cause timer_wake_platform = ESP_SLEEP_WAKEUP_TIMER"
    by (simp add: timer_wake_platform_def)
  have a: "trace (app_main timer_wake_platform (process_start 3610)) =
       [Enable_Timer_Wakeup 3610000000, Task_Delay 100, Deep_Sleep_Start]"
    by (simp add: app_main_dispatch w enterDeepSleep_closed wake_source_def fst_isInCooldown
        snd_isInCooldown r word_sless_alt)
  have b: "filter is_wake_source (trace (app_main trigger_platform (process_start 0))) =
       [Enable_Timer_Wakeup 3600000000]"
    by (simp add: trigger_run del: map_replicate)
  show ?thesis
    using c a b by (simp add: trigger_run(2) r word_sless_alt)
qed

text \<open>
  C2. Every invocation of \<^verbatim>\<open>enterDeepSleep\<close> arms exactly one wake source: it appends to
  the trace one wake-source call, the 100 ms delay and the deep-sleep start; the call is
  the timer wake with the duration \<^verbatim>\<open>getCooldownRemaining()\<close> (in microseconds) when
  \<^verbatim>\<open>isInCooldown()\<close> holds, and the EXT1 wake on the PIR pin otherwise. Over a whole
  process lifetime, whatever the wake cause and whatever the platform answers, exactly one
  wake source is armed: never none, never both.
\<close>

theorem C2_exactly_one_wake_source:
  "trace (enterDeepSleep p s) =
     trace s @
     [if fst (isInCooldown p s)
      then Enable_Timer_Wakeup (fst (getCooldownRemaining p (snd (isInCooldown p s))) * 1000000)
      else Enable_Ext1_Wakeup (push_bit PIN 1),
      Task_Delay 100, Deep_Sleep_Start]
   \<and> length (filter is_wake_source (trace (app_main p (process_start rtc)))) = 1"
  by (simp add: enterDeepSleep_closed wake_source_def wake_sources_app_main)

text \<open>
  C3. Take any run, with any platform behaviour, whose trace holds a detection result
  with \<open>detected\<close> set and a confidence of at least \<open>MIN_CONFIDENCE\<close>. Then
  \<^verbatim>\<open>startCooldown(COOLDOWN_SECONDS)\<close> is called exactly once, before the deep-sleep start
  that ends the trace, whether or not WiFi connects and whether or not the Telegram
  upload succeeds; the persisted timestamp is the clock value \<^verbatim>\<open>startCooldown\<close> read
  (the second read of the run, or the third when the caption was built) plus
  \<open>COOLDOWN_SECONDS\<close>.
\<close>

theorem C3_confident_detection_starts_cooldown_once:
  assumes "Detect r \<in> set (trace (app_main p (process_start rtc)))"
      and "detected r" and "MIN_CONFIDENCE \<le> confidence r"
  shows "filter is_cooldown_started (butlast (trace (app_main p (process_start rtc)))) =
           [Cooldown_Started COOLDOWN_SECONDS]
         \<and> last (trace (app_main p (process_start rtc))) = Deep_Sleep_Start
         \<and> s_nextPirAllowTime (app_main p (process_start rtc)) =
             div_1000000
               (esp_timer_get_time p
                  (if wifi_connect p = ESP_OK \<and> wifi_isConnected p then 2 else 1))
             + COOLDOWN_SECONDS"
proof (cases "esp_sleep_get_wakeup_cause p")
  case ESP_SLEEP_WAKEUP_EXT1
  let ?s = "SleepManager p (process_start rtc)"
  have t: "trace ?s = []" by simp
  have d: "Detect r \<in> set (trace (handlePirTrigger p ?s))"
    using assms(1) ESP_SLEEP_WAKEUP_EXT1 by (simp add: app_main_dispatch)
  have c: "confident r"
    using assms(2,3) by (simp add: confident_def)
  show ?thesis
    using confident_run_cooldown [OF t d c] confident_run_last [OF t, of p]
      confident_run_rtc [OF t d c] ESP_SLEEP_WAKEUP_EXT1
    by (simp add: app_main_dispatch connected_def numeral_2_eq_2)
next
  case ESP_SLEEP_WAKEUP_UNDEFINED
  with assms(1) show ?thesis
    by (simp add: app_main_dispatch trace_enterDeepSleep emit_def)
next
  case ESP_SLEEP_WAKEUP_TIMER
  with assms(1) show ?thesis
    by (simp add: app_main_dispatch trace_enterDeepSleep)
next
  case (ESP_SLEEP_WAKEUP_OTHER c)
  with assms(1) show ?thesis
    by (simp add: app_main_dispatch trace_enterDeepSleep)
qed

theorem C3_confident_detection_starts_cooldown_once_witness:
  "Detect \<lparr>detected = True, confidence = 82 / 100\<rparr>
     \<in> set (trace (app_main trigger_platform (process_start 0)))
   \<and> MIN_CONFIDENCE \<le> 82 / 100
   \<and> telegram_sendDocument trigger_platform \<noteq> ESP_OK
   \<and> filter is_cooldown_started (butlast (trace (app_main trigger_platform (process_start 0)))) =
       [Cooldown_Started 3600]
   \<and> last (trace (app_main trigger_platform (process_start 0))) = Deep_Sleep_Start
   \<and> s_nextPirAllowTime (app_main trigger_platform (process_start 0)) = 3610"
proof -
  have d: "Detect \<lparr>detected = True, confidence = 82 / 100\<rparr>
      \<in> set (trace (app_main trigger_platform (process_start 0)))"
    by (simp add: trigger_run)
  have m: "MIN_CONFIDENCE \<le> 82 / 100"
    by (simp add: MIN_CONFIDENCE_def)
  show ?thesis
    using C3_confident_detection_starts_cooldown_once
      [of "\<lparr>detected = True, confidence = 82 / 100\<rparr>" trigger_platform 0] d m
    by (simp add: COOLDOWN_SECONDS_def trigger_platform_def ESP_OK_def ESP_FAIL_def)
qed

text \<open>
  C4. Take any run whose trace holds no detection result that is both \<open>detected\<close> and
  at least \<open>MIN_CONFIDENCE\<close>: the SD mount failed, the camera failed to initialise,
  warmup or capture failed, nothing was detected or the score was too low (or the run
  never reached the pipeline). Then \<^verbatim>\<open>startCooldown\<close> is never called and the persisted
  timestamp is what it was at process start. If that was 0 and the clock is not
  negative, the one wake source armed is the EXT1 wake on the PIR pin.
\<close>

theorem C4_failing_paths_start_no_cooldown:
  assumes "\<forall>r. Detect r \<in> set (trace (app_main p (process_start rtc))) \<longrightarrow>
             \<not> (detected r \<and> MIN_CONFIDENCE \<le> confidence r)"
  shows "filter is_cooldown_started (trace (app_main p (process_start rtc))) = []
         \<and> s_nextPirAllowTime (app_main p (process_start rtc)) = rtc
         \<and> (rtc = 0 \<and> (\<forall>k. 0 \<le> sint (esp_timer_get_time p k)) \<longrightarrow>
              filter is_wake_source (trace (app_main p (process_start rtc))) =
                [Enable_Ext1_Wakeup (push_bit PIN 1)])"
proof (cases "esp_sleep_get_wakeup_cause p")
  case ESP_SLEEP_WAKEUP_EXT1
  let ?s = "SleepManager p (process_start rtc)"
  have t: "trace ?s = []" by simp
  have u: "\<forall>r. Detect r \<in> set (trace (handlePirTrigger p ?s)) \<longrightarrow> \<not> confident r"
    using assms ESP_SLEEP_WAKEUP_EXT1 by (simp add: app_main_dispatch confident_def)
  show ?thesis
    using unconfident_run_cooldown [OF t u] unconfident_run_rtc [OF t u]
      unconfident_run_wake [OF t u] ESP_SLEEP_WAKEUP_EXT1
    by (auto simp: app_main_dispatch not_cooling_at_zero)
qed (simp_all add: app_main_dispatch trace_enterDeepSleep rtc_enterDeepSleep emit_def
    not_cooling_at_zero)

text \<open>Scenario B of the specification: the camera fails to initialise.\<close>

theorem C4_failing_paths_start_no_cooldown_witness:
  "trace (app_main no_camera_platform (process_start 0)) =
     [Sdmmc_Mount ESP_OK, Camera_Init ESP_FAIL, Sdcard_Unmount, Sd_Gpio_Reset,
      Enable_Ext1_Wakeup 8, Task_Delay 100, Deep_Sleep_Start]
   \<and> filter is_cooldown_started (trace (app_main no_camera_platform (process_start 0))) = []
   \<and> s_nextPirAllowTime (app_main no_camera_platform (process_start 0)) = 0
   \<and> filter is_wake_source (trace (app_main no_camera_platform (process_start 0))) =
       [Enable_Ext1_Wakeup (push_bit PIN 1)]"
proof -
  have clock: "\<forall>k. 0 \<le> sint (esp_timer_get_time no_camera_platform k)"
    by (simp add: no_camera_platform_def)
  show ?thesis
    using C4_failing_paths_start_no_cooldown [of no_camera_platform 0] clock no_camera_run
    by simp
qed

text \<open>
  C5. If \<^verbatim>\<open>isInCooldown()\<close> holds when \<^verbatim>\<open>handlePirTrigger\<close> starts, the run is the
  call of \<^verbatim>\<open>enterDeepSleep\<close> after two reads of the clock and nothing else: no mount, no
  camera initialisation and no frame; the driver flags, the frame and sensor counters and
  the persisted timestamp are what they were; the trace gains one wake source, the delay
  and the deep-sleep start. The wake source is the one \<^verbatim>\<open>enterDeepSleep\<close> chooses at its
  own reads of the clock, the third and fourth of the run: the timer with the cooldown
  remaining at the fourth read when the cooldown still runs at the third, the EXT1 wake
  on the PIR pin when it has expired by then. Whenever both reads show the second the
  pipeline started in, it is the timer with the remaining cooldown of that second.
\<close>

theorem C5_cooldown_aborts_before_acquisition:
  assumes "fst (isInCooldown p s)"
  shows "handlePirTrigger p s = enterDeepSleep p (s\<lparr>timer_reads := timer_reads s + 2\<rparr>)
         \<and> trace (handlePirTrigger p s) =
             trace s @
             [if fst (isInCooldown p (s\<lparr>timer_reads := timer_reads s + 2\<rparr>))
              then Enable_Timer_Wakeup
                     (fst (getCooldownRemaining p (s\<lparr>timer_reads := timer_reads s + 3\<rparr>))
                      * 1000000)
              else Enable_Ext1_Wakeup (push_bit PIN 1),
              Task_Delay 100, Deep_Sleep_Start]
         \<and> m_card (handlePirTrigger p s) = m_card s
         \<and> m_initialized (handlePirTrigger p s) = m_initialized s
         \<and> fb_gets (handlePirTrigger p s) = fb_gets s
         \<and> sensor_gets (handlePirTrigger p s) = sensor_gets s
         \<and> s_nextPirAllowTime (handlePirTrigger p s) = s_nextPirAllowTime s
         \<and> (fst (getCurrentTimeSec p (s\<lparr>timer_reads := timer_reads s + 2\<rparr>)) =
               fst (getCurrentTimeSec p s) \<and>
             fst (getCurrentTimeSec p (s\<lparr>timer_reads := timer_reads s + 3\<rparr>)) =
               fst (getCurrentTimeSec p s) \<longrightarrow>
             trace (handlePirTrigger p s) =
               trace s @
               [Enable_Timer_Wakeup (fst (getCooldownRemaining p s) * 1000000),
                Task_Delay 100, Deep_Sleep_Start])"
proof -
  let ?s2 = "s\<lparr>timer_reads := timer_reads s + 2\<rparr>"
  have h: "handlePirTrigger p s = enterDeepSleep p ?s2"
    using assms
    by (simp add: handlePirTrigger_def snd_isInCooldown snd_getCooldownRemaining Let_def
        split_def)
  have w: "wake_source p ?s2 =
      (if fst (isInCooldown p ?s2)
       then Enable_Timer_Wakeup
              (fst (getCooldownRemaining p (s\<lparr>timer_reads := timer_reads s + 3\<rparr>)) * 1000000)
       else Enable_Ext1_Wakeup (push_bit PIN 1))"
    by (simp add: wake_source_def snd_isInCooldown numeral_3_eq_3)
  have same: "wake_source p ?s2 =
      Enable_Timer_Wakeup (fst (getCooldownRemaining p s) * 1000000)"
    if "fst (getCurrentTimeSec p ?s2) = fst (getCurrentTimeSec p s)"
      and "fst (getCurrentTimeSec p (s\<lparr>timer_reads := timer_reads s + 3\<rparr>)) =
          fst (getCurrentTimeSec p s)"
    using that assms
    by (simp add: wake_source_def isInCooldown_def getCooldownRemaining_def
        getCurrentTimeSec_def Let_def numeral_3_eq_3)
  have t: "trace (handlePirTrigger p s) =
      trace s @ [wake_source p ?s2, Task_Delay 100, Deep_Sleep_Start]"
    unfolding h by (simp add: enterDeepSleep_closed)
  have t1: "trace (handlePirTrigger p s) =
      trace s @
      [if fst (isInCooldown p ?s2)
       then Enable_Timer_Wakeup
              (fst (getCooldownRemaining p (s\<lparr>timer_reads := timer_reads s + 3\<rparr>)) * 1000000)
       else Enable_Ext1_Wakeup (push_bit PIN 1),
       Task_Delay 100, Deep_Sleep_Start]"
    by (simp only: t w)
  have t2: "trace (handlePirTrigger p s) =
      trace s @
      [Enable_Timer_Wakeup (fst (getCooldownRemaining p s) * 1000000), Task_Delay 100,
       Deep_Sleep_Start]"
    if "fst (getCurrentTimeSec p ?s2) = fst (getCurrentTimeSec p s) \<and>
        fst (getCurrentTimeSec p (s\<lparr>timer_reads := timer_reads s + 3\<rparr>)) =
          fst (getCurrentTimeSec p s)"
    using that same by (simp only: t)
  have f: "m_card (handlePirTrigger p s) = m_card s"
    "m_initialized (handlePirTrigger p s) = m_initialized s"
    "fb_gets (handlePirTrigger p s) = fb_gets s"
    "sensor_gets (handlePirTrigger p s) = sensor_gets s"
    "s_nextPirAllowTime (handlePirTrigger p s) = s_nextPirAllowTime s"
    unfolding h by (simp_all add: enterDeepSleep_closed)
  show ?thesis
    using h t1 t2 f by blast
qed

text \<open>Scenario E of the specification: a trigger at second 10 of a cooldown that lasts
  until second 3610.\<close>

theorem C5_cooldown_aborts_before_acquisition_witness:
  "fst (isInCooldown trigger_platform (process_start 3610))
   \<and> fst (getCooldownRemaining trigger_platform (process_start 3610)) = 3600
   \<and> trace (handlePirTrigger trigger_platform (process_start 3610)) =
       [Enable_Timer_Wakeup 3600000000, Task_Delay 100, Deep_Sleep_Start]
   \<and> \<not> m_card (handlePirTrigger trigger_platform (process_start 3610))
   \<and> \<not> m_initialized (handlePirTrigger trigger_platform (process_start 3610))
   \<and> fb_gets (handlePirTrigger trigger_platform (process_start 3610)) = 0
   \<and> s_nextPirAllowTime (handlePirTrigger trigger_platform (process_start 3610)) = 3610"
proof -
  have c: "fst (isInCooldown trigger_platform (process_start 3610))"
    by (simp add: fst_isInCooldown word_sless_alt)
  have r: "fst (getCooldownRemaining trigger_platform (process_start 3610)) = 3600"
    "fst (getCooldownRemaining trigger_platform ((process_start 3610)\<lparr>timer_reads := k\<rparr>)) =
     3600" for k
    by (simp_all add: getCooldownRemaining_def getCurrentTimeSec_def word_sless_alt)
  have i: "fst (isInCooldown trigger_platform ((process_start 3610)\<lparr>timer_reads := k\<rparr>))"
    for k
    by (simp add: fst_isInCooldown word_sless_alt)
  show ?thesis
    using C5_cooldown_aborts_before_acquisition [OF c, THEN conjunct2] c
    by (simp add: r i)
qed

text \<open>The cooldown expires between the test at the start of \<^verbatim>\<open>handlePirTrigger\<close> and
  the test in \<^verbatim>\<open>enterDeepSleep\<close>: the pipeline starts in cooldown with one second
  remaining, acquires nothing, and the run arms the EXT1 wake, not the timer.\<close>

theorem C5_timer_wake_counterexample:
  "fst (isInCooldown expiring_platform (process_start 3610))
   \<and> fst (getCooldownRemaining expiring_platform (process_start 3610)) = 1
   \<and> trace (handlePirTrigger expiring_platform (process_start 3610)) =
       [Enable_Ext1_Wakeup 8, Task_Delay 100, Deep_Sleep_Start]
   \<and> filter is_wake_source (trace (handlePirTrigger expiring_platform (process_start 3610))) \<noteq>
       [Enable_Timer_Wakeup
          (fst (getCooldownRemaining expiring_platform (process_start 3610)) * 1000000)]"
proof -
  have d: "div_1000000 3609900000 = 3609" "div_1000000 3610050000 = 3610"
    by (simp_all add: div_1000000_def signed_divide_int_def)
  have c: "fst (isInCooldown expiring_platform (process_start 3610))"
    by (simp add: fst_isInCooldown expiring_platform_def d word_sless_alt)
  have r: "fst (getCooldownRemaining expiring_platform (process_start 3610)) = 1"
    by (simp add: getCooldownRemaining_def getCurrentTimeSec_def expiring_platform_def d
        word_sless_alt)
  have a: "arm_at expiring_platform 2 3610 = Enable_Ext1_Wakeup 8"
    by (simp add: arm_at_def wake_source_def fst_isInCooldown expiring_platform_def d
        word_sless_alt PIN_def)
  have t: "trace (handlePirTrigger expiring_platform (process_start 3610)) =
       [Enable_Ext1_Wakeup 8, Task_Delay 100, Deep_Sleep_Start]"
    using path_abort(1) [OF c] a by (simp add: sleep_events_def numeral_2_eq_2)
  show ?thesis
    using c r t by simp
qed

text \<open>
  C6. Wherever the subtraction of \<^verbatim>\<open>getCooldownRemaining\<close> is defined in C++ (it does
  not overflow \<^verbatim>\<open>int64_t\<close>), the remaining time is \<open>max 0 (allowed_after - now)\<close>, and
  it is 0 exactly when \<^verbatim>\<open>isInCooldown\<close> is false; \<open>now\<close> is the clock value both
  methods read in the state \<open>s\<close>.
\<close>

theorem C6_remaining_is_clamped_difference:
  assumes "- (2 ^ 63) \<le> sint (s_nextPirAllowTime s) - sint (fst (getCurrentTimeSec p s))"
      and "sint (s_nextPirAllowTime s) - sint (fst (getCurrentTimeSec p s)) < 2 ^ 63"
  shows "sint (fst (getCooldownRemaining p s)) =
           max 0 (sint (s_nextPirAllowTime s) - sint (fst (getCurrentTimeSec p s)))
         \<and> (fst (getCooldownRemaining p s) = 0 \<longleftrightarrow> \<not> fst (isInCooldown p s))"
proof -
  let ?a = "s_nextPirAllowTime s" and ?now = "fst (getCurrentTimeSec p s)"
  have d: "sint (?a - ?now) = sint ?a - sint ?now"
    using assms by (rule sint_sub_no_overflow)
  have r: "fst (getCooldownRemaining p s) = (if 0 <s ?a - ?now then ?a - ?now else 0)"
    by (simp add: getCooldownRemaining_def getCurrentTimeSec_def Let_def)
  have c: "fst (isInCooldown p s) \<longleftrightarrow> ?now <s ?a"
    by (simp add: isInCooldown_def getCurrentTimeSec_def)
  have z: "?a - ?now = 0 \<longleftrightarrow> sint ?a - sint ?now = 0"
    using d by (metis sint_0 signed_word_eqI)
  show ?thesis
    unfolding r c using d z by (auto simp: word_sless_alt)
qed

theorem C6_remaining_is_clamped_difference_witness:
  "sint (fst (getCooldownRemaining trigger_platform (process_start 3610))) = 3600
   \<and> (fst (getCooldownRemaining trigger_platform (process_start 3610)) = 0) =
       (\<not> fst (isInCooldown trigger_platform (process_start 3610)))
   \<and> sint (fst (getCooldownRemaining trigger_platform (process_start 7))) = 0
   \<and> (fst (getCooldownRemaining trigger_platform (process_start 7)) = 0) =
       (\<not> fst (isInCooldown trigger_platform (process_start 7)))"
proof -
  have now: "fst (getCurrentTimeSec trigger_platform (process_start a)) = 10" for a
    by (simp add: getCurrentTimeSec_def div_1000000_def trigger_platform_def
        signed_divide_int_def)
  show ?thesis
    using C6_remaining_is_clamped_difference [of "process_start 3610" trigger_platform]
      C6_remaining_is_clamped_difference [of "process_start 7" trigger_platform]
    by (simp add: now)
qed

text \<open>
  C7. Queries never change the persisted timestamp: after any sequence of
  \<^verbatim>\<open>isInCooldown\<close> and \<^verbatim>\<open>getCooldownRemaining\<close> calls it is what it was.
  \<^verbatim>\<open>startCooldown\<close> sets it to \<open>now + seconds\<close> whatever it held before (the last
  writer wins, nothing is added to an earlier cooldown). No other operation of the
  drivers, the detector or the sleep manager writes it, and a whole run that never calls
  \<^verbatim>\<open>startCooldown\<close> leaves it as it was at process start.
\<close>

theorem C7_allowed_after_written_only_by_startCooldown:
  "s_nextPirAllowTime (run_queries p qs s) = s_nextPirAllowTime s
   \<and> s_nextPirAllowTime (startCooldown p seconds (s\<lparr>s_nextPirAllowTime := old\<rparr>)) =
       fst (getCurrentTimeSec p s) + seconds
   \<and> s_nextPirAllowTime (enterDeepSleep p s) = s_nextPirAllowTime s
   \<and> s_nextPirAllowTime (snd (SdCardDriver_mount p s)) = s_nextPirAllowTime s
   \<and> s_nextPirAllowTime (SdCardDriver_shutdown s) = s_nextPirAllowTime s
   \<and> s_nextPirAllowTime (snd (CameraDriver_init p s)) = s_nextPirAllowTime s
   \<and> s_nextPirAllowTime (snd (CameraDriver_warmup p s)) = s_nextPirAllowTime s
   \<and> s_nextPirAllowTime (snd (CameraDriver_capture p s)) = s_nextPirAllowTime s
   \<and> s_nextPirAllowTime (CameraDriver_returnFrame fb s) = s_nextPirAllowTime s
   \<and> s_nextPirAllowTime (CameraDriver_shutdown p s) = s_nextPirAllowTime s
   \<and> s_nextPirAllowTime (snd (Detector_detect p frame s)) = s_nextPirAllowTime s
   \<and> (filter is_cooldown_started (trace (app_main p (process_start rtc))) = [] \<longrightarrow>
        s_nextPirAllowTime (app_main p (process_start rtc)) = rtc)"
proof -
  have q: "s_nextPirAllowTime (run_queries p qs s) = s_nextPirAllowTime s"
    by (induction qs arbitrary: s)
      (simp_all add: snd_isInCooldown snd_getCooldownRemaining split: query.splits)
  have w: "s_nextPirAllowTime (startCooldown p seconds (s\<lparr>s_nextPirAllowTime := old\<rparr>)) =
       fst (getCurrentTimeSec p s) + seconds"
    by (simp add: startCooldown_def getCurrentTimeSec_def emit_def)
  have r: "s_nextPirAllowTime (CameraDriver_returnFrame fb s) = s_nextPirAllowTime s"
    by (simp add: CameraDriver_returnFrame_def emit_def split: option.splits)
  have a: "filter is_cooldown_started (trace (app_main p (process_start rtc))) = [] \<longrightarrow>
        s_nextPirAllowTime (app_main p (process_start rtc)) = rtc"
  proof (cases "esp_sleep_get_wakeup_cause p")
    case ESP_SLEEP_WAKEUP_EXT1
    then show ?thesis
      using no_cooldown_pir [of "SleepManager p (process_start rtc)" p]
      by (simp add: app_main_dispatch)
  qed (simp_all add: app_main_dispatch trace_enterDeepSleep rtc_enterDeepSleep emit_def)
  show ?thesis
    using q w r a by (simp add: effects)
qed

theorem C7_allowed_after_written_only_by_startCooldown_witness:
  "s_nextPirAllowTime
     (run_queries trigger_platform [Q_isInCooldown, Q_getCooldownRemaining, Q_isInCooldown]
        (process_start 99)) = 99
   \<and> s_nextPirAllowTime
       (startCooldown no_camera_platform 3600 ((process_start 0)\<lparr>s_nextPirAllowTime := 99\<rparr>)) =
       3610
   \<and> filter is_cooldown_started (trace (app_main no_camera_platform (process_start 0))) = []
   \<and> s_nextPirAllowTime (app_main no_camera_platform (process_start 0)) = 0"
proof -
  have n: "fst (getCurrentTimeSec no_camera_platform s) = 10" for s
    by (simp add: getCurrentTimeSec_def no_camera_platform_def)
  show ?thesis
    using C7_allowed_after_written_only_by_startCooldown
        [where p = trigger_platform and s = "process_start 99"
          and qs = "[Q_isInCooldown, Q_getCooldownRemaining, Q_isInCooldown]"]
      C7_allowed_after_written_only_by_startCooldown
        [where p = no_camera_platform and s = "process_start 0" and seconds = 3600
          and old = 99 and rtc = 0]
    by (simp add: n no_camera_run)
qed

text \<open>
  C8. On an initialised camera \<^verbatim>\<open>warmup\<close> asks for exactly \<open>CAMERA_WARMUP_FRAMES\<close> = 25
  frames, whatever it is given, returns every frame it got, and succeeds exactly when at
  least \<open>CAMERA_MIN_VALID_FRAMES\<close> of the 25 are frames of more than \<open>MIN_FRAME_SIZE\<close>
  bytes. When the pipeline reaches warmup and warmup fails, the run goes on with the
  camera shutdown, the SD card shutdown and the deep sleep: no capture, no detection, no
  cooldown, and the persisted timestamp is what it was.
\<close>

theorem C8_warmup_fixed_budget:
  assumes "m_initialized s"
  shows "fst (CameraDriver_warmup p s) =
           (CAMERA_MIN_VALID_FRAMES \<le> int (length (filter valid_frame (warmup_frames p s))))
         \<and> length (warmup_frames p s) = 25
         \<and> trace (snd (CameraDriver_warmup p s)) =
             trace s @ concat (map frame_events (warmup_frames p s))
         \<and> length (filter is_fb_get (concat (map frame_events (warmup_frames p s)))) = 25
         \<and> length (filter (acquired Captured_Frame) (concat (map frame_events (warmup_frames p s)))) =
             length (filter (released Captured_Frame) (concat (map frame_events (warmup_frames p s))))
         \<and> (esp_sleep_get_wakeup_cause p = ESP_SLEEP_WAKEUP_EXT1 \<and>
             \<not> fst (isInCooldown p (process_start rtc)) \<and>
             esp_vfs_fat_sdmmc_mount p = ESP_OK \<and> esp_camera_init p = ESP_OK \<and>
             esp_camera_sensor_get p 0 \<and>
             \<not> CAMERA_MIN_VALID_FRAMES
                 \<le> int (length (filter valid_frame (warmup_frames p (process_start rtc)))) \<longrightarrow>
             trace (app_main p (process_start rtc)) =
               [Sdmmc_Mount ESP_OK, Camera_Init ESP_OK, Sensor_Settings] @
               concat (map frame_events (warmup_frames p (process_start rtc))) @
               shutdown_events p 1 @ sleep_events p 1 rtc
             \<and> filter is_cooldown_started (trace (app_main p (process_start rtc))) = []
             \<and> s_nextPirAllowTime (app_main p (process_start rtc)) = rtc)"
proof -
  have n: "length (warmup_frames p s) = 25"
    by (simp add: warmup_frames_def length_frames_from CAMERA_WARMUP_FRAMES_def)
  have run: "trace (app_main p (process_start rtc)) =
               [Sdmmc_Mount ESP_OK, Camera_Init ESP_OK, Sensor_Settings] @
               concat (map frame_events (warmup_frames p (process_start rtc))) @
               shutdown_events p 1 @ sleep_events p 1 rtc
             \<and> filter is_cooldown_started (trace (app_main p (process_start rtc))) = []
             \<and> s_nextPirAllowTime (app_main p (process_start rtc)) = rtc"
    if "esp_sleep_get_wakeup_cause p = ESP_SLEEP_WAKEUP_EXT1"
      and c: "\<not> fst (isInCooldown p (process_start rtc))"
      and m: "esp_vfs_fat_sdmmc_mount p = ESP_OK" and i: "esp_camera_init p = ESP_OK"
      and g: "esp_camera_sensor_get p 0"
      and w: "\<not> CAMERA_MIN_VALID_FRAMES
                 \<le> int (length (filter valid_frame (warmup_frames p (process_start rtc))))"
    using that path_warmup_failed [of p "SleepManager p (process_start rtc)"]
    by (simp add: app_main_dispatch)
  show ?thesis
    using assms n run by (simp add: fst_warmup snd_warmup)
qed

theorem C8_warmup_fixed_budget_witness:
  "m_initialized ((process_start 0)\<lparr>m_initialized := True\<rparr>)
   \<and> \<not> fst (CameraDriver_warmup no_frames_platform ((process_start 0)\<lparr>m_initialized := True\<rparr>))
   \<and> trace (snd (CameraDriver_warmup no_frames_platform
        ((process_start 0)\<lparr>m_initialized := True\<rparr>))) =
       concat (replicate 25 [Fb_Get None, Task_Delay 35])
   \<and> trace (app_main no_frames_platform (process_start 0)) =
       [Sdmmc_Mount ESP_OK, Camera_Init ESP_OK, Sensor_Settings] @
       concat (replicate 25 [Fb_Get None, Task_Delay 35]) @
       [Sensor_Standby, Camera_Deinit, Camera_Gpio_Reset, Sdcard_Unmount, Sd_Gpio_Reset,
        Enable_Ext1_Wakeup 8, Task_Delay 100, Deep_Sleep_Start]
   \<and> filter is_cooldown_started (trace (app_main no_frames_platform (process_start 0))) = []
   \<and> s_nextPirAllowTime (app_main no_frames_platform (process_start 0)) = 0"
proof -
  let ?p = no_frames_platform
  have f: "warmup_frames ?p s = replicate 25 None" for s
    by (simp add: warmup_frames_const [where fb = None] no_frames_platform_def
        CAMERA_WARMUP_FRAMES_def)
  have w: "\<not> CAMERA_MIN_VALID_FRAMES \<le> int (length (filter valid_frame (warmup_frames ?p s)))"
    for s
    by (simp add: f valid_frame_def CAMERA_MIN_VALID_FRAMES_def)
  have c: "\<not> fst (isInCooldown ?p (process_start 0))"
    by (simp add: fst_isInCooldown word_sless_alt no_frames_platform_def)
  have p: "esp_sleep_get_wakeup_cause ?p = ESP_SLEEP_WAKEUP_EXT1"
    "esp_vfs_fat_sdmmc_mount ?p = ESP_OK" "esp_camera_init ?p = ESP_OK"
    "esp_camera_sensor_get ?p g" "0 \<le> sint (esp_timer_get_time ?p k)" for g k
    by (simp_all add: no_frames_platform_def)
  show ?thesis
    using C8_warmup_fixed_budget [of "(process_start 0)\<lparr>m_initialized := True\<rparr>" ?p 0] w c p
    by (simp add: f frame_events_def CAMERA_WARMUP_DELAY_MS_def shutdown_events_def
        sleep_events_def not_cooling_at_zero PIN_def)
qed

text \<open>
  C9. In every process lifetime, whatever the wake cause and whatever the platform
  answers, each resource type is released as often as it was acquired: successful mounts
  against unmounts, successful camera initialisations against deinitialisations, frame
  buffers obtained against frame buffers returned. The sessions are released in the
  reverse of the order they were acquired in: the camera before the SD card.
\<close>

theorem C9_releases_match_acquisitions:
  "length (filter (acquired r) (trace (app_main p (process_start rtc)))) =
   length (filter (released r) (trace (app_main p (process_start rtc))))
   \<and> concat (map session_released (trace (app_main p (process_start rtc)))) =
     rev (concat (map session_acquired (trace (app_main p (process_start rtc)))))"
proof (cases "esp_sleep_get_wakeup_cause p")
  case ESP_SLEEP_WAKEUP_EXT1
  then show ?thesis
    using balance_pir [of "SleepManager p (process_start rtc)" r p]
      order_pir [of "SleepManager p (process_start rtc)" p]
    by (simp add: app_main_dispatch)
qed (simp_all add: app_main_dispatch trace_enterDeepSleep emit_def)

text \<open>
  C10. \<^verbatim>\<open>CameraDriver::shutdown\<close> and \<^verbatim>\<open>SdCardDriver::shutdown\<close> change nothing when
  the resource is not held: on a driver that is not initialised or not mounted, after an
  \<^verbatim>\<open>init\<close> or a \<^verbatim>\<open>mount\<close> that failed, and when called a second time. So no run
  releases a session more than once.
\<close>

theorem C10_shutdown_idempotent:
  "(\<not> m_initialized s \<longrightarrow> CameraDriver_shutdown p s = s)
   \<and> (\<not> m_card s \<longrightarrow> SdCardDriver_shutdown s = s)
   \<and> (fst (CameraDriver_init p s) \<noteq> ESP_OK \<longrightarrow>
        CameraDriver_shutdown p (snd (CameraDriver_init p s)) = snd (CameraDriver_init p s))
   \<and> (fst (SdCardDriver_mount p s) \<noteq> ESP_OK \<longrightarrow>
        SdCardDriver_shutdown (snd (SdCardDriver_mount p s)) = snd (SdCardDriver_mount p s))
   \<and> CameraDriver_shutdown p (CameraDriver_shutdown p s) = CameraDriver_shutdown p s
   \<and> SdCardDriver_shutdown (SdCardDriver_shutdown s) = SdCardDriver_shutdown s
   \<and> length (filter (released Imaging_Session) (trace (app_main p (process_start rtc)))) \<le> 1
   \<and> length (filter (released Storage_Session) (trace (app_main p (process_start rtc)))) \<le> 1"
proof -
  have c: "\<not> m_initialized s \<Longrightarrow> CameraDriver_shutdown p s = s" for s
    by (simp add: CameraDriver_shutdown_def)
  have d: "\<not> m_card s \<Longrightarrow> SdCardDriver_shutdown s = s" for s
    by (simp add: SdCardDriver_shutdown_def)
  have i: "fst (CameraDriver_init p s) \<noteq> ESP_OK \<Longrightarrow> \<not> m_initialized (snd (CameraDriver_init p s))"
    by (simp add: fst_init snd_init ESP_OK_def ESP_FAIL_def split: if_splits)
  have m: "fst (SdCardDriver_mount p s) \<noteq> ESP_OK \<Longrightarrow> \<not> m_card (snd (SdCardDriver_mount p s))"
    by (simp add: fst_mount snd_mount split: if_splits)
  have cc: "\<not> m_initialized (CameraDriver_shutdown p s)"
    by (simp add: CameraDriver_shutdown_closed)
  have dd: "\<not> m_card (SdCardDriver_shutdown s)"
    by (simp add: SdCardDriver_shutdown_closed)
  have r: "length (filter (released Imaging_Session) (trace (app_main p (process_start rtc)))) \<le> 1
      \<and> length (filter (released Storage_Session) (trace (app_main p (process_start rtc)))) \<le> 1"
  proof (cases "esp_sleep_get_wakeup_cause p")
    case ESP_SLEEP_WAKEUP_EXT1
    then show ?thesis
      using release_once_pir [of "SleepManager p (process_start rtc)" p]
      by (simp add: app_main_dispatch)
  qed (simp_all add: app_main_dispatch trace_enterDeepSleep emit_def)
  show ?thesis
    using c [of s] d [of s] c [OF i] d [OF m] c [OF cc] d [OF dd] r by blast
qed

theorem C10_shutdown_idempotent_witness:
  "\<not> m_initialized (process_start 0)
   \<and> CameraDriver_shutdown no_camera_platform (process_start 0) = process_start 0
   \<and> \<not> m_card (process_start 0)
   \<and> SdCardDriver_shutdown (process_start 0) = process_start 0
   \<and> fst (CameraDriver_init no_camera_platform (process_start 0)) \<noteq> ESP_OK
   \<and> CameraDriver_shutdown no_camera_platform
        (snd (CameraDriver_init no_camera_platform (process_start 0))) =
      snd (CameraDriver_init no_camera_platform (process_start 0))
   \<and> fst (SdCardDriver_mount no_card_platform (process_start 0)) \<noteq> ESP_OK
   \<and> SdCardDriver_shutdown (snd (SdCardDriver_mount no_card_platform (process_start 0))) =
      snd (SdCardDriver_mount no_card_platform (process_start 0))"
proof -
  have i: "fst (CameraDriver_init no_camera_platform (process_start 0)) \<noteq> ESP_OK"
    by (simp add: fst_init no_camera_platform_def trigger_platform_def ESP_OK_def ESP_FAIL_def)
  have m: "fst (SdCardDriver_mount no_card_platform (process_start 0)) \<noteq> ESP_OK"
    by (simp add: fst_mount no_card_platform_def trigger_platform_def ESP_OK_def ESP_FAIL_def)
  show ?thesis
    using C10_shutdown_idempotent [of "process_start 0" no_camera_platform 0]
      C10_shutdown_idempotent [of "process_start 0" no_card_platform 0] i m
    by simp
qed

end
